theory Spec2Isabelle
  imports Complex_Main
begin

section \<open>Python values used by the widget\<close>

text \<open>
  The program is one Python file, \<^verbatim>\<open>main.py\<close>. Python \<^verbatim>\<open>str\<close> values are modelled
  as \<^typ>\<open>string\<close> holding the UTF-8 bytes of the text, so the symbols of the source
  (weather icons, umlauts, the degree sign) are byte sequences written with \<open>CHR\<close>.
  An exception is a value: its class and the text \<^verbatim>\<open>str(e)\<close> gives.
\<close>

datatype exn_class =
    ConnectionError | HTTPError | JSONDecodeError | KeyError | ValueError | TypeError
  | AttributeError | IndexError | ZeroDivisionError | OverflowError | OSError | RuntimeError

datatype error = Raised exn_class string

fun exn_str :: "error \<Rightarrow> string" where
  "exn_str (Raised k m) = m"

subsection \<open>Integers as text\<close>

definition digit_char :: "nat \<Rightarrow> char" where
  "digit_char d = ''0123456789'' ! d"

fun dec_digits :: "nat \<Rightarrow> string" where
  "dec_digits n = (if n < 10 then [digit_char n] else dec_digits (n div 10) @ [digit_char (n mod 10)])"

declare dec_digits.simps [simp del]

definition str_int :: "int \<Rightarrow> string" where
  \<comment> \<open>\<^verbatim>\<open>str(n)\<close> and \<^verbatim>\<open>f"{n}"\<close> for a Python int\<close>
  "str_int n = (if n < 0 then CHR ''-'' # dec_digits (nat (- n)) else dec_digits (nat n))"

definition str_opt_int :: "int option \<Rightarrow> string" where
  \<comment> \<open>\<^verbatim>\<open>f"{v}"\<close> where \<^verbatim>\<open>v\<close> is an int or \<^verbatim>\<open>None\<close>\<close>
  "str_opt_int v = (case v of None \<Rightarrow> ''None'' | Some n \<Rightarrow> str_int n)"

definition str_opt :: "string option \<Rightarrow> string" where
  \<comment> \<open>\<^verbatim>\<open>f"{v}"\<close> where \<^verbatim>\<open>v\<close> is a str or \<^verbatim>\<open>None\<close>\<close>
  "str_opt v = (case v of None \<Rightarrow> ''None'' | Some s \<Rightarrow> s)"

definition pad2 :: "nat \<Rightarrow> string" where
  \<comment> \<open>two digits with a leading zero, as \<^verbatim>\<open>%H\<close> and \<^verbatim>\<open>%M\<close> print\<close>
  "pad2 n = (if n < 10 then CHR ''0'' # dec_digits n else dec_digits n)"

subsection \<open>Floats\<close>

text \<open>
  A Python float is a finite binary fraction, negative zero, an infinity or NaN. Every
  finite float is a rational number, and the program only rounds floats, truncates them and
  prints them with a fixed number of decimals; all three are exact functions of the float's
  value. \<open>Fin 0\<close> is the zero with the positive sign; negative zero rounds and truncates to 0
  and prints with its sign.
\<close>

datatype pyfloat = Fin rat | NegZero | PosInf | NegInf | NaN

definition round_half_even :: "rat \<Rightarrow> int" where
  "round_half_even q =
     (let f = \<lfloor>q\<rfloor>; d = q - of_int f
      in if d < 1 / 2 then f else if 1 / 2 < d then f + 1 else if even f then f else f + 1)"

definition py_round :: "pyfloat \<Rightarrow> error + int" where
  \<comment> \<open>\<^verbatim>\<open>round(x)\<close>: to the nearest integer, ties to the even one\<close>
  "py_round x =
     (case x of
        Fin q \<Rightarrow> Inr (round_half_even q)
      | NegZero \<Rightarrow> Inr 0
      | NaN \<Rightarrow> Inl (Raised ValueError ''cannot convert float NaN to integer'')
      | _ \<Rightarrow> Inl (Raised OverflowError ''cannot convert float infinity to integer''))"

definition py_int :: "pyfloat \<Rightarrow> error + int" where
  \<comment> \<open>\<^verbatim>\<open>int(x)\<close>: truncation towards zero\<close>
  "py_int x =
     (case x of
        Fin q \<Rightarrow> Inr (if q < 0 then - \<lfloor>- q\<rfloor> else \<lfloor>q\<rfloor>)
      | NegZero \<Rightarrow> Inr 0
      | NaN \<Rightarrow> Inl (Raised ValueError ''cannot convert float NaN to integer'')
      | _ \<Rightarrow> Inl (Raised OverflowError ''cannot convert float infinity to integer''))"

fun pad_left :: "nat \<Rightarrow> string \<Rightarrow> string" where
  "pad_left w s = replicate (w - length s) CHR ''0'' @ s"

definition fmt_fixed :: "nat \<Rightarrow> pyfloat \<Rightarrow> string" where
  \<comment> \<open>\<^verbatim>\<open>f"{x:.2f}"\<close> (\<open>d = 2\<close>) and \<^verbatim>\<open>f"{x:.6f}"\<close> (\<open>d = 6\<close>), for \<open>d > 0\<close>; a negative number
      keeps its sign when it rounds to zero, and so does negative zero\<close>
  "fmt_fixed d x =
     (case x of
        Fin q \<Rightarrow>
          (let n = nat (round_half_even (\<bar>q\<bar> * 10 ^ d))
           in (if q < 0 then ''-'' else '''') @ dec_digits (n div 10 ^ d) @ ''.''
              @ pad_left d (dec_digits (n mod 10 ^ d)))
      | NegZero \<Rightarrow> ''-0.'' @ replicate d CHR ''0''
      | PosInf \<Rightarrow> ''inf''
      | NegInf \<Rightarrow> ''-inf''
      | NaN \<Rightarrow> ''nan'')"

section \<open>The weather-code table\<close>

text \<open>
  The icons of the table, as UTF-8: sun U+2600 U+FE0F, sun behind small cloud U+1F324 U+FE0F,
  sun behind cloud U+26C5, cloud U+2601 U+FE0F, fog U+1F32B U+FE0F, sun behind rain cloud
  U+1F326 U+FE0F, rain cloud U+1F327 U+FE0F, snow cloud U+1F328 U+FE0F, snowflake
  U+2744 U+FE0F, thunder cloud U+26C8 U+FE0F, and the question mark ornament U+2753.
\<close>

abbreviation icon_sun :: string where
  "icon_sun \<equiv> [CHR 0xE2, CHR 0x98, CHR 0x80, CHR 0xEF, CHR 0xB8, CHR 0x8F]"
abbreviation icon_mostly_sun :: string where
  "icon_mostly_sun \<equiv> [CHR 0xF0, CHR 0x9F, CHR 0x8C, CHR 0xA4, CHR 0xEF, CHR 0xB8, CHR 0x8F]"
abbreviation icon_part_cloud :: string where
  "icon_part_cloud \<equiv> [CHR 0xE2, CHR 0x9B, CHR 0x85]"
abbreviation icon_cloud :: string where
  "icon_cloud \<equiv> [CHR 0xE2, CHR 0x98, CHR 0x81, CHR 0xEF, CHR 0xB8, CHR 0x8F]"
abbreviation icon_fog :: string where
  "icon_fog \<equiv> [CHR 0xF0, CHR 0x9F, CHR 0x8C, CHR 0xAB, CHR 0xEF, CHR 0xB8, CHR 0x8F]"
abbreviation icon_sun_rain :: string where
  "icon_sun_rain \<equiv> [CHR 0xF0, CHR 0x9F, CHR 0x8C, CHR 0xA6, CHR 0xEF, CHR 0xB8, CHR 0x8F]"
abbreviation icon_rain :: string where
  "icon_rain \<equiv> [CHR 0xF0, CHR 0x9F, CHR 0x8C, CHR 0xA7, CHR 0xEF, CHR 0xB8, CHR 0x8F]"
abbreviation icon_snow :: string where
  "icon_snow \<equiv> [CHR 0xF0, CHR 0x9F, CHR 0x8C, CHR 0xA8, CHR 0xEF, CHR 0xB8, CHR 0x8F]"
abbreviation icon_flake :: string where
  "icon_flake \<equiv> [CHR 0xE2, CHR 0x9D, CHR 0x84, CHR 0xEF, CHR 0xB8, CHR 0x8F]"
abbreviation icon_thunder :: string where
  "icon_thunder \<equiv> [CHR 0xE2, CHR 0x9B, CHR 0x88, CHR 0xEF, CHR 0xB8, CHR 0x8F]"
abbreviation icon_unknown :: string where
  "icon_unknown \<equiv> [CHR 0xE2, CHR 0x9D, CHR 0x93]"

text \<open>The letters outside ASCII in the descriptions and labels: u, o, a with diaeresis, sharp s.\<close>

abbreviation uml_u :: string where "uml_u \<equiv> [CHR 0xC3, CHR 0xBC]"
abbreviation uml_o :: string where "uml_o \<equiv> [CHR 0xC3, CHR 0xB6]"
abbreviation uml_a :: string where "uml_a \<equiv> [CHR 0xC3, CHR 0xA4]"
abbreviation sharp_s :: string where "sharp_s \<equiv> [CHR 0xC3, CHR 0x9F]"
abbreviation degree :: string where "degree \<equiv> [CHR 0xC2, CHR 0xB0]"

definition WMO :: "(int \<times> string \<times> string) list" where
  "WMO =
   [(0, icon_sun, ''klar''),
    (1, icon_mostly_sun, uml_u @ ''berwiegend klar''),
    (2, icon_part_cloud, ''teilweise bew'' @ uml_o @ ''lkt''),
    (3, icon_cloud, ''bedeckt''),
    (45, icon_fog, ''nebel''),
    (48, icon_fog, ''reifnebel''),
    (51, icon_sun_rain, ''niesel (leicht)''),
    (53, icon_sun_rain, ''niesel (m'' @ uml_a @ sharp_s @ ''ig)''),
    (55, icon_rain, ''niesel (stark)''),
    (56, icon_rain, ''gefrierender niesel (leicht)''),
    (57, icon_rain, ''gefrierender niesel (stark)''),
    (61, icon_sun_rain, ''regen (leicht)''),
    (63, icon_rain, ''regen (m'' @ uml_a @ sharp_s @ ''ig)''),
    (65, icon_rain, ''regen (stark)''),
    (66, icon_rain, ''gefrierender regen (leicht)''),
    (67, icon_rain, ''gefrierender regen (stark)''),
    (71, icon_snow, ''schnee (leicht)''),
    (73, icon_snow, ''schnee (m'' @ uml_a @ sharp_s @ ''ig)''),
    (75, icon_flake, ''schnee (stark)''),
    (77, icon_snow, ''schneek'' @ uml_o @ ''rner''),
    (80, icon_sun_rain, ''schauer (leicht)''),
    (81, icon_rain, ''schauer (m'' @ uml_a @ sharp_s @ ''ig)''),
    (82, icon_rain, ''schauer (heftig)''),
    (85, icon_snow, ''schneeschauer (leicht)''),
    (86, icon_flake, ''schneeschauer (heftig)''),
    (95, icon_thunder, ''gewitter''),
    (96, icon_thunder, ''gewitter mit hagel (leicht)''),
    (99, icon_thunder, ''gewitter mit hagel (stark)'')]"

definition wmo_to_icon_desc :: "int \<Rightarrow> string \<times> string" where
  \<comment> \<open>\<^verbatim>\<open>WMO.get(int(code), (icon_unknown, "unbekannt"))\<close>\<close>
  "wmo_to_icon_desc code =
     (case map_of WMO code of Some p \<Rightarrow> p | None \<Rightarrow> (icon_unknown, ''unbekannt''))"

section \<open>Text helpers\<close>

abbreviation nl :: string where "nl \<equiv> [CHR 0x0A]"
abbreviation sq :: string where "sq \<equiv> [CHR 0x27]"

fun py_join :: "string \<Rightarrow> string list \<Rightarrow> string" where
  \<comment> \<open>\<^verbatim>\<open>sep.join(xs)\<close>\<close>
  "py_join sep [] = []"
| "py_join sep [x] = x"
| "py_join sep (x # y # ys) = x @ sep @ py_join sep (y # ys)"

definition py_take :: "int \<Rightarrow> 'a list \<Rightarrow> 'a list" where
  \<comment> \<open>the slice \<^verbatim>\<open>xs[:k]\<close>: a negative \<open>k\<close> drops that many elements from the end\<close>
  "py_take k xs = (if k < 0 then take (length xs - nat (- k)) xs else take (nat k) xs)"

fun mapM_err :: "('a \<Rightarrow> error + 'b) \<Rightarrow> 'a list \<Rightarrow> error + 'b list" where
  \<comment> \<open>a \<^verbatim>\<open>for\<close> loop that appends one result per element and stops at the first raise\<close>
  "mapM_err f [] = Inr []"
| "mapM_err f (x # xs) =
     (case f x of
        Inl e \<Rightarrow> Inl e
      | Inr y \<Rightarrow> (case mapM_err f xs of Inl e \<Rightarrow> Inl e | Inr ys \<Rightarrow> Inr (y # ys)))"

definition bind_err :: "error + 'a \<Rightarrow> ('a \<Rightarrow> error + 'b) \<Rightarrow> error + 'b" where
  \<comment> \<open>sequencing: the first raise ends the block\<close>
  "bind_err m f = (case m of Inl e \<Rightarrow> Inl e | Inr v \<Rightarrow> f v)"

text \<open>
  \<^verbatim>\<open>str.capitalize()\<close>: the first character in title case, the rest in lower case. The
  model is exact on Latin-1 (U+0000..U+00FF): the ASCII letters, the letter pairs
  U+00C0..U+00DE and U+00E0..U+00FE without the multiplication and division signs, and the
  three lower-case letters whose title case is not in Latin-1: a leading sharp s becomes
  "Ss", a leading y with diaeresis becomes U+0178, a leading micro sign becomes U+039C. This
  covers every description of the table; a character beyond U+00FF is left as it is.
\<close>

definition ascii_upper :: "char \<Rightarrow> char" where
  "ascii_upper c =
     (let n = (of_char c :: nat) in if 97 \<le> n \<and> n \<le> 122 then char_of (n - 32) else c)"

definition ascii_lower :: "char \<Rightarrow> char" where
  "ascii_lower c =
     (let n = (of_char c :: nat) in if 65 \<le> n \<and> n \<le> 90 then char_of (n + 32) else c)"

definition latin1_lower_tail :: "char \<Rightarrow> bool" where
  \<comment> \<open>second UTF-8 byte (after 0xC3) of a lower-case Latin-1 letter with an upper-case partner\<close>
  "latin1_lower_tail d = (let n = (of_char d :: nat) in 0xA0 \<le> n \<and> n \<le> 0xBE \<and> n \<noteq> 0xB7)"

definition latin1_upper_tail :: "char \<Rightarrow> bool" where
  "latin1_upper_tail d = (let n = (of_char d :: nat) in 0x80 \<le> n \<and> n \<le> 0x9E \<and> n \<noteq> 0x97)"

fun py_lower :: "string \<Rightarrow> string" where
  "py_lower (c # d # s) =
     (if c = CHR 0xC3 \<and> latin1_upper_tail d then c # char_of (of_char d + (32::nat)) # py_lower s
      else ascii_lower c # py_lower (d # s))"
| "py_lower [c] = [ascii_lower c]"
| "py_lower [] = []"

fun capitalize :: "string \<Rightarrow> string" where
  "capitalize (c # d # s) =
     (if c = CHR 0xC3 \<and> d = CHR 0x9F then ''Ss'' @ py_lower s
      else if c = CHR 0xC3 \<and> d = CHR 0xBF then [CHR 0xC5, CHR 0xB8] @ py_lower s
      else if c = CHR 0xC2 \<and> d = CHR 0xB5 then [CHR 0xCE, CHR 0x9C] @ py_lower s
      else if c = CHR 0xC3 \<and> latin1_lower_tail d
      then c # char_of (of_char d - (32::nat)) # py_lower s
      else ascii_upper c # py_lower (d # s))"
| "capitalize [c] = [ascii_upper c]"
| "capitalize [] = []"

section \<open>The hourly block of the tooltip\<close>

text \<open>
  A \<^verbatim>\<open>datetime\<close> that knows its zone is an instant: microseconds since the epoch. The
  formatter reads the clock (\<^verbatim>\<open>datetime.now(timezone.utc)\<close>) and the system's local zone
  (\<^verbatim>\<open>astimezone()\<close>); both are the \<open>clock\<close> it is given. Two such datetimes compare as
  instants. The instants of the model are those whose local time lies in the years 1 to
  9999: within the zone's offset of the two ends of that range \<^verbatim>\<open>astimezone()\<close> raises
  \<^verbatim>\<open>OverflowError\<close>, and those instants are left out.
\<close>

record clock =
  now :: int  \<comment> \<open>\<^verbatim>\<open>datetime.now(timezone.utc)\<close>\<close>
  utcoffset :: "int \<Rightarrow> int"  \<comment> \<open>offset of the local zone from UTC at an instant, in microseconds\<close>

definition hour_us :: int where
  "hour_us = 3600000000"

definition local_hour_start :: "clock \<Rightarrow> int \<Rightarrow> int" where
  \<comment> \<open>\<^verbatim>\<open>t.astimezone().replace(minute=0, second=0, microsecond=0)\<close>, as an instant\<close>
  "local_hour_start clk t =
     (let wall = t + utcoffset clk t in wall - wall mod hour_us - utcoffset clk t)"

definition strftime_HM :: "clock \<Rightarrow> int \<Rightarrow> string" where
  \<comment> \<open>\<^verbatim>\<open>t.astimezone().strftime("%H:%M")\<close>\<close>
  "strftime_HM clk t =
     (let secs = ((t + utcoffset clk t) div 1000000) mod 86400
      in pad2 (nat (secs div 3600)) @ '':'' @ pad2 (nat (secs mod 3600 div 60)))"

record hourly_point =
  h_time :: "int option"  \<comment> \<open>key \<^verbatim>\<open>"time"\<close>; \<open>None\<close> when the key is missing\<close>
  h_temp :: "int option"  \<comment> \<open>key \<^verbatim>\<open>"temp"\<close>\<close>
  h_wmo :: "int option"  \<comment> \<open>key \<^verbatim>\<open>"wmo"\<close>\<close>

definition in_future :: "clock \<Rightarrow> hourly_point \<Rightarrow> bool" where
  \<comment> \<open>the condition of the list comprehension of \<^verbatim>\<open>format_hourly_forecast\<close>\<close>
  "in_future clk h =
     (case h_time h of
        None \<Rightarrow> False
      | Some t \<Rightarrow> local_hour_start clk (now clk) \<le> local_hour_start clk t)"

definition hourly_rows :: "clock \<Rightarrow> hourly_point list \<Rightarrow> int \<Rightarrow> hourly_point list" where
  \<comment> \<open>\<^verbatim>\<open>rows = future[:hours] if future else hourly[:hours]\<close>\<close>
  "hourly_rows clk hourly hours =
     (let future = filter (in_future clk) hourly
      in if future \<noteq> [] then py_take hours future else py_take hours hourly)"

definition hourly_line :: "clock \<Rightarrow> hourly_point \<Rightarrow> error + string" where
  \<comment> \<open>the body of the loop over \<^verbatim>\<open>rows\<close>; \<^verbatim>\<open>h["time"]\<close> raises when the key is missing\<close>
  "hourly_line clk h =
     (case h_time h of
        None \<Rightarrow> Inl (Raised KeyError (sq @ ''time'' @ sq))
      | Some t \<Rightarrow>
          Inr (strftime_HM clk t @ ''  ''
               @ fst (wmo_to_icon_desc (case h_wmo h of None \<Rightarrow> - 1 | Some c \<Rightarrow> c)) @ ''  ''
               @ str_opt_int (h_temp h) @ degree @ ''C''))"

definition format_hourly_forecast :: "clock \<Rightarrow> hourly_point list \<Rightarrow> int \<Rightarrow> error + string" where
  \<comment> \<open>the parameter \<^verbatim>\<open>tz\<close> of the source is never read\<close>
  "format_hourly_forecast clk hourly hours =
     (if hourly = [] then Inr ''''
      else bind_err (mapM_err (hourly_line clk) (hourly_rows clk hourly hours))
             (\<lambda>ls. Inr (py_join nl (['''', '''', ''St'' @ uml_u @ ''ndlich:''] @ ls))))"

definition format_hourly_default :: "clock \<Rightarrow> hourly_point list \<Rightarrow> error + string" where
  \<comment> \<open>\<^verbatim>\<open>format_hourly_forecast\<close> called with the list alone, as \<^verbatim>\<open>build_waybar_output\<close> calls it:
      \<^verbatim>\<open>hours\<close> takes its default, 6\<close>
  "format_hourly_default clk hourly = format_hourly_forecast clk hourly 6"

section \<open>The Waybar payload\<close>

text \<open>
  The dictionaries of the source are records; a key read with \<^verbatim>\<open>.get\<close> is an option
  (\<open>None\<close>: the key is missing). \<^verbatim>\<open>weather_data.get('hourly', [])\<close> makes a missing list
  the empty list, so \<open>wd_hourly\<close> is a plain list. The numbers of \<^verbatim>\<open>current\<close> are ints,
  as \<^verbatim>\<open>get_weather\<close> stores them, and \<^verbatim>\<open>round\<close> leaves an int as it is.
\<close>

record weather_entry =
  w_description :: string
  w_icon :: string
  w_icon_code :: string

record current_conditions =
  c_temp :: int
  c_feels_like :: "int option"
  c_humidity :: "int option"
  c_wind_speed :: "int option"
  c_wind_deg :: "int option"
  c_weather :: "weather_entry list"

record weather_data =
  wd_request_limit_reached :: bool
  wd_current :: current_conditions
  wd_hourly :: "hourly_point list"

record location_info =
  li_city :: string
  li_region :: "string option"
  li_country :: "string option"

record waybar_output =
  o_text :: string
  o_alt :: string
  o_tooltip :: string
  o_class :: string

abbreviation icon_pin :: string where
  "icon_pin \<equiv> [CHR 0xF0, CHR 0x9F, CHR 0x93, CHR 0x8D]"

definition build_waybar_output ::
  "'r \<Rightarrow> location_info \<Rightarrow> weather_data \<Rightarrow> string \<Rightarrow> (hourly_point list \<Rightarrow> error + string)
     \<Rightarrow> error + waybar_output" where
  "build_waybar_output response location_info weather_data request_limit_warning hourly_formatter =
     (let current = wd_current weather_data;
          temp = c_temp current;
          feels_like = (case c_feels_like current of None \<Rightarrow> temp | Some v \<Rightarrow> v);
          humidity = c_humidity current;
          wind_speed = (case c_wind_speed current of None \<Rightarrow> 0 | Some v \<Rightarrow> v)
      in case c_weather current of
           [] \<Rightarrow> Inl (Raised IndexError ''list index out of range'')
         | w # _ \<Rightarrow>
             (let description = w_description w; icon_code = w_icon_code w; icon = w_icon w
              in bind_err (hourly_formatter (wd_hourly weather_data))
                   (\<lambda>hourly_block.
                      Inr \<lparr>o_text = icon @ '' '' @ str_int temp @ degree @ ''C'',
                           o_alt = description,
                           o_tooltip =
                             icon_pin @ '' '' @ li_city location_info @ '', ''
                             @ str_opt (li_region location_info) @ '', ''
                             @ str_opt (li_country location_info)
                             @ request_limit_warning @ nl
                             @ ''<span size='' @ sq @ ''xx-large'' @ sq @ ''>'' @ str_int temp
                             @ degree @ ''C</span>'' @ nl
                             @ ''<big>'' @ icon @ '' '' @ capitalize description @ ''</big>'' @ nl
                             @ ''Gef'' @ uml_u @ ''hlte: '' @ str_int feels_like @ degree @ ''C'' @ nl
                             @ ''Feuchtigkeit: '' @ str_opt_int humidity @ ''%'' @ nl
                             @ ''Wind: '' @ str_int wind_speed @ '' km/h''
                             @ hourly_block,
                           o_class = icon_code\<rparr>)))"

section \<open>Fetching and normalising the forecast\<close>

text \<open>
  What the Open-Meteo client returns: the values of the current block
  (\<^verbatim>\<open>Current().Variables(k).Value()\<close>), and the hourly block with its start, end and step in
  seconds and its two arrays. \<open>hb_t2m\<close> is the first array after \<^verbatim>\<open>astype(float)\<close>,
  \<open>hb_wmo\<close> the second after \<^verbatim>\<open>astype(int)\<close>; a missing block or variable is \<open>None\<close>, and
  reading an attribute of it raises.
\<close>

record hourly_block =
  hb_time :: int
  hb_time_end :: int
  hb_interval :: int
  hb_t2m :: "pyfloat list option"
  hb_wmo :: "int list option"

record response =
  r_current :: "pyfloat list option"
  r_hourly :: "hourly_block option"

record forecast_env =
  client_setup :: "error option"
    \<comment> \<open>what building the cached session, the retry wrapper and the client raises, if anything\<close>
  weather_api :: "pyfloat \<Rightarrow> pyfloat \<Rightarrow> error + response list"
    \<comment> \<open>\<^verbatim>\<open>client.weather_api(url, params=params)\<close> for a latitude and a longitude\<close>

definition py_index :: "'a list \<Rightarrow> nat \<Rightarrow> error + 'a" where
  \<comment> \<open>\<^verbatim>\<open>xs[i]\<close> for \<open>i \<ge> 0\<close>\<close>
  "py_index xs i = (if i < length xs then Inr (xs ! i) else Inl (Raised IndexError ''index out of range''))"

definition none_attr :: error where
  "none_attr = Raised AttributeError (sq @ ''NoneType'' @ sq @ '' object has no attribute'')"

definition cur_value :: "pyfloat list \<Rightarrow> nat \<Rightarrow> error + pyfloat" where
  \<comment> \<open>\<^verbatim>\<open>float(cur.Variables(k).Value())\<close>; \<^verbatim>\<open>Variables(k)\<close> is \<^verbatim>\<open>None\<close> past the last variable\<close>
  "cur_value vs k = (if k < length vs then Inr (vs ! k) else Inl none_attr)"

definition current_of :: "response \<Rightarrow> error + current_conditions" where
  "current_of response =
     (case r_current response of
        None \<Rightarrow> Inl none_attr
      | Some cur \<Rightarrow>
          bind_err (cur_value cur 0) (\<lambda>temp.
          bind_err (cur_value cur 1) (\<lambda>feels_like.
          bind_err (bind_err (cur_value cur 2) py_round) (\<lambda>humidity.
          bind_err (cur_value cur 3) (\<lambda>wind_speed.
          bind_err (cur_value cur 4) (\<lambda>wind_deg.
          bind_err (bind_err (cur_value cur 5) py_int) (\<lambda>wmo_code.
          bind_err (py_round temp) (\<lambda>temp_r.
          bind_err (py_round feels_like) (\<lambda>feels_like_r.
          bind_err (py_round wind_speed) (\<lambda>wind_speed_r.
          bind_err (py_round wind_deg) (\<lambda>wind_deg_r.
            Inr \<lparr>c_temp = temp_r,
                 c_feels_like = Some feels_like_r,
                 c_humidity = Some humidity,
                 c_wind_speed = Some wind_speed_r,
                 c_wind_deg = Some wind_deg_r,
                 c_weather =
                   [\<lparr>w_description = snd (wmo_to_icon_desc wmo_code),
                     w_icon = fst (wmo_to_icon_desc wmo_code),
                     w_icon_code = str_int wmo_code\<rparr>]\<rparr>)))))))))))"

definition fromtimestamp :: "int \<Rightarrow> error + int" where
  \<comment> \<open>\<^verbatim>\<open>datetime.fromtimestamp(ts, tz=timezone.utc)\<close>: the years 1 to 9999, else a raise. The
      error is a \<^verbatim>\<open>ValueError\<close> that names the year, or an \<^verbatim>\<open>OSError\<close> for a timestamp the C
      library cannot convert; \<^verbatim>\<open>get_weather\<close> catches and drops it, and the model has one
      error for both\<close>
  "fromtimestamp ts =
     (if - 62135596800 \<le> ts \<and> ts \<le> 253402300799 then Inr (ts * 1000000)
      else Inl (Raised ValueError ''year is out of range''))"

definition floordiv :: "int \<Rightarrow> int \<Rightarrow> error + int" where
  \<comment> \<open>\<^verbatim>\<open>int((end - start).total_seconds() // step)\<close>, for whole seconds\<close>
  "floordiv a b =
     (if b = 0 then Inl (Raised ZeroDivisionError ''float floor division by zero'')
      else Inr (a div b))"

definition timedelta_ok :: "int \<Rightarrow> bool" where
  \<comment> \<open>a \<^verbatim>\<open>timedelta\<close> of so many microseconds exists: at most 999999999 days either way\<close>
  "timedelta_ok d \<longleftrightarrow> - 999999999 \<le> d div 86400000000 \<and> d div 86400000000 \<le> 999999999"

definition datetime_ok :: "int \<Rightarrow> bool" where
  \<comment> \<open>the instant is a \<^verbatim>\<open>datetime\<close> in UTC: the years 1 to 9999\<close>
  "datetime_ok t \<longleftrightarrow> - 62135596800000000 \<le> t \<and> t \<le> 253402300799999999"

definition hour_entry :: "int \<Rightarrow> int \<Rightarrow> int \<Rightarrow> pyfloat list \<Rightarrow> int list \<Rightarrow> nat \<Rightarrow> error + hourly_point" where
  \<comment> \<open>one turn of the loop over \<^verbatim>\<open>range(n_ok)\<close>. \<^verbatim>\<open>i * (end - start)\<close> is a timedelta and raises
      when it is too large; a timedelta divided by an int is rounded to the microsecond, ties
      to even; adding it to \<^verbatim>\<open>start\<close> raises outside the years 1 to 9999\<close>
  "hour_entry start end n t2m wmo i =
     (let d = int i * (end - start)
      in if \<not> timedelta_ok d
         then Inl (Raised OverflowError
                    (''days='' @ str_int (d div 86400000000)
                     @ ''; must have magnitude <= 999999999''))
         else
           (let t = start + round_half_even (of_int d / of_int (max n 1))
            in if \<not> datetime_ok t then Inl (Raised OverflowError ''date value out of range'')
               else
                 bind_err (bind_err (py_index t2m i) py_round) (\<lambda>temp.
                 bind_err (py_index wmo i) (\<lambda>code.
                   Inr \<lparr>h_time = Some t, h_temp = Some temp, h_wmo = Some code\<rparr>))))"

definition hours_of :: "response \<Rightarrow> error + hourly_point list" where
  "hours_of response =
     (case r_hourly response of
        None \<Rightarrow> Inl none_attr
      | Some hb \<Rightarrow>
          bind_err (fromtimestamp (hb_time hb)) (\<lambda>start.
          bind_err (fromtimestamp (hb_time_end hb)) (\<lambda>end.
          bind_err (floordiv (hb_time_end hb - hb_time hb) (hb_interval hb)) (\<lambda>n.
          (case hb_t2m hb of
             None \<Rightarrow> Inl none_attr
           | Some t2m \<Rightarrow>
               (case hb_wmo hb of
                  None \<Rightarrow> Inl none_attr
                | Some wmo \<Rightarrow>
                    (let n_ok = min n (min (int (length t2m)) (int (length wmo)))
                     in mapM_err (hour_entry start end n t2m wmo) [0 ..< nat n_ok])))))))"

definition fetch_weather :: "forecast_env \<Rightarrow> pyfloat \<Rightarrow> pyfloat \<Rightarrow> error + weather_data \<times> response" where
  \<comment> \<open>the body of the \<^verbatim>\<open>try\<close> block of \<^verbatim>\<open>get_weather\<close>\<close>
  "fetch_weather env lat lon =
     bind_err (weather_api env lat lon) (\<lambda>responses.
     bind_err (py_index responses 0) (\<lambda>response.
     bind_err (current_of response) (\<lambda>current.
     bind_err (hours_of response) (\<lambda>hours.
       Inr (\<lparr>wd_request_limit_reached = False, wd_current = current, wd_hourly = hours\<rparr>,
            response)))))"

definition fallback_weather_data :: weather_data where
  \<comment> \<open>the \<^verbatim>\<open>weather_data\<close> of the \<^verbatim>\<open>except\<close> branch\<close>
  "fallback_weather_data =
     \<lparr>wd_request_limit_reached = True,
      wd_current =
        \<lparr>c_temp = 0, c_feels_like = Some 0, c_humidity = Some 0, c_wind_speed = Some 0,
         c_wind_deg = Some 0,
         c_weather = [\<lparr>w_description = ''unbekannt'', w_icon = icon_unknown, w_icon_code = ''-1''\<rparr>]\<rparr>,
      wd_hourly = []\<rparr>"

definition get_weather ::
  "forecast_env \<Rightarrow> pyfloat \<Rightarrow> pyfloat \<Rightarrow> string option \<Rightarrow> string option \<Rightarrow> string option
     \<Rightarrow> error + weather_data \<times> location_info \<times> response option" where
  \<comment> \<open>\<^verbatim>\<open>place_name or f"{lat:.2f},{lon:.2f}"\<close>: \<^verbatim>\<open>None\<close> and the empty string are false; the
      parameter \<^verbatim>\<open>tz\<close> only goes into the request parameters\<close>
  "get_weather env lat lon place_name region country =
     (case client_setup env of
        Some e \<Rightarrow> Inl e
      | None \<Rightarrow>
          (let city = (case place_name of
                         Some s \<Rightarrow> if s \<noteq> [] then s else fmt_fixed 2 lat @ '','' @ fmt_fixed 2 lon
                       | None \<Rightarrow> fmt_fixed 2 lat @ '','' @ fmt_fixed 2 lon);
               location_info = \<lparr>li_city = city, li_region = region, li_country = country\<rparr>
           in case fetch_weather env lat lon of
                Inr (weather_data, response) \<Rightarrow> Inr (weather_data, location_info, Some response)
              | Inl e \<Rightarrow> Inr (fallback_weather_data, location_info, None)))"

section \<open>Resolving the location from the public IP address\<close>

text \<open>
  A provider answers with a JSON object; the members the parsers read are strings, numbers
  or null, and a number is the float that \<^verbatim>\<open>float\<close> makes of it. \<open>rsp_status_error\<close> is what \<^verbatim>\<open>raise_for_status()\<close> raises, if anything, and
  \<open>rsp_json\<close> what \<^verbatim>\<open>json()\<close> returns or raises (a document that is not an object makes
  the first subscript of every parser raise, and counts as a raise here). Python's
  \<^verbatim>\<open>float\<close> on a str is a parameter of the model, next to the network.
\<close>

datatype jval = JNull | JStr string | JNum pyfloat

type_synonym jdict = "(string \<times> jval) list"

record http_response =
  rsp_status_error :: "error option"
  rsp_json :: "error + jdict"

record net =
  http_get :: "string \<Rightarrow> int \<Rightarrow> error + http_response"
    \<comment> \<open>\<^verbatim>\<open>requests.get(url, timeout=timeout, headers=...)\<close>\<close>
  float_of_str :: "string \<Rightarrow> error + pyfloat"

type_synonym geo = "pyfloat \<times> pyfloat \<times> string option \<times> string option \<times> string option"

definition subscript :: "jdict \<Rightarrow> string \<Rightarrow> error + jval" where
  \<comment> \<open>\<^verbatim>\<open>d[k]\<close>\<close>
  "subscript d k = (case map_of d k of None \<Rightarrow> Inl (Raised KeyError (sq @ k @ sq)) | Some v \<Rightarrow> Inr v)"

definition dict_get :: "jdict \<Rightarrow> string \<Rightarrow> string option" where
  \<comment> \<open>\<^verbatim>\<open>d.get(k)\<close> for a text member: a str, or \<^verbatim>\<open>None\<close> for null and for a missing key. The
      functions that receive the value are annotated \<^verbatim>\<open>Optional[str]\<close>; a number under such
      a key is outside that type and is read as \<^verbatim>\<open>None\<close>.\<close>
  "dict_get d k = (case map_of d k of Some (JStr s) \<Rightarrow> Some s | _ \<Rightarrow> None)"

definition py_or :: "string option \<Rightarrow> string option \<Rightarrow> string option" where
  \<comment> \<open>\<^verbatim>\<open>a or b\<close>: \<^verbatim>\<open>None\<close> and the empty string are false\<close>
  "py_or a b = (case a of Some s \<Rightarrow> if s \<noteq> [] then a else b | None \<Rightarrow> b)"

definition py_float :: "net \<Rightarrow> jval \<Rightarrow> error + pyfloat" where
  \<comment> \<open>\<^verbatim>\<open>float(v)\<close>\<close>
  "py_float nt v =
     (case v of
        JNum x \<Rightarrow> Inr x
      | JStr s \<Rightarrow> float_of_str nt s
      | JNull \<Rightarrow>
          Inl (Raised TypeError
                 (''float() argument must be a string or a real number, not ''
                  @ sq @ ''NoneType'' @ sq)))"

fun split_on :: "char \<Rightarrow> string \<Rightarrow> string list" where
  \<comment> \<open>\<^verbatim>\<open>s.split(c)\<close> for a separator of one character\<close>
  "split_on c [] = [[]]"
| "split_on c (x # xs) =
     (if x = c then [] # split_on c xs
      else (case split_on c xs of w # ws \<Rightarrow> (x # w) # ws | [] \<Rightarrow> [[x]]))"

definition str_split :: "jval \<Rightarrow> error + string list" where
  \<comment> \<open>\<^verbatim>\<open>v.split(",")\<close>: only a str has the method\<close>
  "str_split v =
     (case v of
        JStr s \<Rightarrow> Inr (split_on CHR '','' s)
      | JNum x \<Rightarrow>
          Inl (Raised AttributeError
                 (sq @ ''float'' @ sq @ '' object has no attribute '' @ sq @ ''split'' @ sq))
      | JNull \<Rightarrow>
          Inl (Raised AttributeError
                 (sq @ ''NoneType'' @ sq @ '' object has no attribute '' @ sq @ ''split'' @ sq)))"

definition parse_ipapi :: "net \<Rightarrow> jdict \<Rightarrow> error + geo" where
  "parse_ipapi nt d =
     bind_err (bind_err (subscript d ''latitude'') (py_float nt)) (\<lambda>lat.
     bind_err (bind_err (subscript d ''longitude'') (py_float nt)) (\<lambda>lon.
       Inr (lat, lon, dict_get d ''city'', dict_get d ''region'',
            py_or (dict_get d ''country_name'') (dict_get d ''country''))))"

definition loc_part :: "net \<Rightarrow> jdict \<Rightarrow> nat \<Rightarrow> error + pyfloat" where
  \<comment> \<open>\<^verbatim>\<open>float(d["loc"].split(",")[k])\<close>\<close>
  "loc_part nt d k =
     bind_err (subscript d ''loc'') (\<lambda>loc.
     bind_err (str_split loc) (\<lambda>parts.
     bind_err (py_index parts k) (float_of_str nt)))"

definition parse_ipinfo :: "net \<Rightarrow> jdict \<Rightarrow> error + geo" where
  "parse_ipinfo nt d =
     bind_err (loc_part nt d 0) (\<lambda>lat.
     bind_err (loc_part nt d 1) (\<lambda>lon.
       Inr (lat, lon, dict_get d ''city'', dict_get d ''region'', dict_get d ''country'')))"

definition parse_ip_api :: "net \<Rightarrow> jdict \<Rightarrow> error + geo" where
  "parse_ip_api nt d =
     bind_err (bind_err (subscript d ''lat'') (py_float nt)) (\<lambda>lat.
     bind_err (bind_err (subscript d ''lon'') (py_float nt)) (\<lambda>lon.
       Inr (lat, lon, dict_get d ''city'',
            py_or (dict_get d ''regionName'') (dict_get d ''region''), dict_get d ''country'')))"

definition providers :: "(string \<times> (net \<Rightarrow> jdict \<Rightarrow> error + geo)) list" where
  "providers =
     [(''https://ipapi.co/json/'', parse_ipapi),
      (''https://ipinfo.io/json'', parse_ipinfo),
      (''http://ip-api.com/json'', parse_ip_api)]"

definition attempt :: "net \<Rightarrow> int \<Rightarrow> string \<times> (net \<Rightarrow> jdict \<Rightarrow> error + geo) \<Rightarrow> error + geo" where
  \<comment> \<open>the body of the \<^verbatim>\<open>try\<close> block of the loop, for one provider\<close>
  "attempt nt timeout p =
     bind_err (http_get nt (fst p) timeout) (\<lambda>r.
       case rsp_status_error r of
         Some e \<Rightarrow> Inl e
       | None \<Rightarrow> bind_err (rsp_json r) (\<lambda>data. snd p nt data))"

fun try_providers ::
  "net \<Rightarrow> int \<Rightarrow> (string \<times> (net \<Rightarrow> jdict \<Rightarrow> error + geo)) list \<Rightarrow> error option \<Rightarrow> error + geo" where
  \<comment> \<open>the loop, with \<^verbatim>\<open>last_err\<close> as its state, and the \<^verbatim>\<open>raise\<close> after it\<close>
  "try_providers nt timeout [] last_err =
     Inl (Raised RuntimeError
            (''IP-Geolokation fehlgeschlagen: ''
             @ (case last_err of None \<Rightarrow> ''None'' | Some e \<Rightarrow> exn_str e)))"
| "try_providers nt timeout (p # ps) last_err =
     (case attempt nt timeout p of
        Inr loc \<Rightarrow> Inr loc
      | Inl e \<Rightarrow> try_providers nt timeout ps (Some e))"

definition get_ip_location :: "net \<Rightarrow> int \<Rightarrow> error + geo" where
  "get_ip_location nt timeout = try_providers nt timeout providers None"

section \<open>The program\<close>

definition hex_char :: "nat \<Rightarrow> char" where
  "hex_char d = ''0123456789abcdef'' ! d"

definition json_escape :: "char \<Rightarrow> string" where
  \<comment> \<open>one character of a JSON string with \<^verbatim>\<open>ensure_ascii=False\<close>: the quote, the backslash and
      the characters below U+0020 are escaped, every other byte is written as it is\<close>
  "json_escape c =
     (let n = (of_char c :: nat)
      in if n = 0x22 then [CHR 0x5C, CHR 0x22]
         else if n = 0x5C then [CHR 0x5C, CHR 0x5C]
         else if n = 0x0A then [CHR 0x5C, CHR ''n'']
         else if n = 0x0D then [CHR 0x5C, CHR ''r'']
         else if n = 0x09 then [CHR 0x5C, CHR ''t'']
         else if n = 0x08 then [CHR 0x5C, CHR ''b'']
         else if n = 0x0C then [CHR 0x5C, CHR ''f'']
         else if n < 0x20 then [CHR 0x5C] @ ''u00'' @ [hex_char (n div 16), hex_char (n mod 16)]
         else [c])"

definition json_str :: "string \<Rightarrow> string" where
  "json_str s = [CHR 0x22] @ concat (map json_escape s) @ [CHR 0x22]"

definition json_dumps :: "waybar_output \<Rightarrow> string" where
  \<comment> \<open>\<^verbatim>\<open>json.dumps(output, ensure_ascii=False)\<close> for the dict of four strings\<close>
  "json_dumps output =
     ''{'' @ json_str ''text'' @ '': '' @ json_str (o_text output) @ '', ''
     @ json_str ''alt'' @ '': '' @ json_str (o_alt output) @ '', ''
     @ json_str ''tooltip'' @ '': '' @ json_str (o_tooltip output) @ '', ''
     @ json_str ''class'' @ '': '' @ json_str (o_class output) @ ''}''"

text \<open>
  A run reads the network twice for the location, once for the forecast, and the clock.
  What it writes is the text of both streams, encoded as UTF-8; \<^verbatim>\<open>print\<close> writes to standard
  output and ends the text with a newline. \<open>Inl e\<close> is a run that an exception ends before anything
  was printed.
\<close>

record run_env =
  run_geo_first :: net
  run_forecast :: forecast_env
  run_clock :: clock
  run_geo_second :: net

record console =
  stdout :: string
  stderr :: string

abbreviation icon_warning :: string where
  "icon_warning \<equiv> [CHR 0xE2, CHR 0x9A, CHR 0xA0, CHR 0xEF, CHR 0xB8, CHR 0x8F]"
abbreviation arrow :: string where
  "arrow \<equiv> [CHR 0xE2, CHR 0x86, CHR 0x92]"

definition location_line :: "geo \<Rightarrow> string" where
  \<comment> \<open>the f-string of the second \<^verbatim>\<open>print\<close>\<close>
  "location_line g =
     (case g of (lat, lon, city, region, country) \<Rightarrow>
        icon_pin @ '' '' @ str_opt city @ '', '' @ str_opt region @ '', '' @ str_opt country
        @ '' '' @ arrow @ '' '' @ fmt_fixed 6 lat @ '', '' @ fmt_fixed 6 lon)"

definition main :: "run_env \<Rightarrow> error + console" where
  "main env =
     bind_err (get_ip_location (run_geo_first env) 4) (\<lambda>(lat, lon, city, region, country).
     bind_err (get_weather (run_forecast env) lat lon city region country)
       (\<lambda>(weather_data, location_info, response).
     (let request_limit_warning =
            (if wd_request_limit_reached weather_data
             then nl @ icon_warning @ '' API request limit reached - showing cached/offline data''
             else '''')
      in bind_err (build_waybar_output response location_info weather_data request_limit_warning
                     (format_hourly_default (run_clock env)))
           (\<lambda>output.
              Inr \<lparr>stdout =
                     json_dumps output @ nl
                     @ (case get_ip_location (run_geo_second env) 4 of
                          Inr g \<Rightarrow> location_line g @ nl
                        | Inl e \<Rightarrow> ''Fehler: '' @ exn_str e @ nl),
                   stderr = ''''\<rparr>))))"

section \<open>Concrete inputs\<close>

text \<open>
  A clock in a zone one hour ahead of UTC, and four hourly points of 1 January 1970, at
  13:00, 14:00, 15:00 and 16:00 of that zone.
\<close>

definition clock_at :: "int \<Rightarrow> clock" where
  "clock_at t = \<lparr>now = t, utcoffset = (\<lambda>_. 3600000000)\<rparr>"

definition four_points :: "hourly_point list" where
  "four_points =
     [\<lparr>h_time = Some 43200000000, h_temp = Some 20, h_wmo = Some 0\<rparr>,
      \<lparr>h_time = Some 46800000000, h_temp = Some 21, h_wmo = Some 1\<rparr>,
      \<lparr>h_time = Some 50400000000, h_temp = Some 22, h_wmo = Some 3\<rparr>,
      \<lparr>h_time = Some 54000000000, h_temp = Some 21, h_wmo = Some 61\<rparr>]"

definition block_from_13 :: "string list" where
  "block_from_13 =
     ['''', '''', ''St'' @ uml_u @ ''ndlich:'',
      ''13:00  '' @ icon_sun @ ''  20'' @ degree @ ''C'',
      ''14:00  '' @ icon_mostly_sun @ ''  21'' @ degree @ ''C'',
      ''15:00  '' @ icon_cloud @ ''  22'' @ degree @ ''C'',
      ''16:00  '' @ icon_sun_rain @ ''  21'' @ degree @ ''C'']"

definition block_from_14 :: "string list" where
  "block_from_14 =
     ['''', '''', ''St'' @ uml_u @ ''ndlich:'',
      ''14:00  '' @ icon_mostly_sun @ ''  21'' @ degree @ ''C'',
      ''15:00  '' @ icon_cloud @ ''  22'' @ degree @ ''C'',
      ''16:00  '' @ icon_sun_rain @ ''  21'' @ degree @ ''C'']"

definition berlin :: location_info where
  "berlin = \<lparr>li_city = ''Berlin'', li_region = Some ''Berlin'', li_country = Some ''Germany''\<rparr>"

definition clear_sky :: current_conditions where
  "clear_sky =
     \<lparr>c_temp = 21, c_feels_like = Some 19, c_humidity = Some 55, c_wind_speed = Some 12,
      c_wind_deg = None,
      c_weather = [\<lparr>w_description = ''klar'', w_icon = icon_sun, w_icon_code = ''0''\<rparr>]\<rparr>"

definition afternoon_data :: weather_data where
  "afternoon_data =
     \<lparr>wd_request_limit_reached = False, wd_current = clear_sky, wd_hourly = four_points\<rparr>"

text \<open>
  Forecast environments: one whose request fails, one whose cache file cannot be opened,
  and one whose response has ten temperatures, eight weather codes and a declared range of
  twelve hourly steps; \<open>ragged_data\<close> is what that response normalises to.
\<close>

definition offline_env :: forecast_env where
  "offline_env =
     \<lparr>client_setup = None,
      weather_api = (\<lambda>lat lon. Inl (Raised ConnectionError ''connection refused''))\<rparr>"

definition no_cache_env :: forecast_env where
  "no_cache_env =
     \<lparr>client_setup = Some (Raised OSError ''unable to open database file''),
      weather_api = (\<lambda>lat lon. Inl (Raised ConnectionError ''connection refused''))\<rparr>"

definition ragged_block :: hourly_block where
  "ragged_block =
     \<lparr>hb_time = 0, hb_time_end = 43200, hb_interval = 3600,
      hb_t2m = Some [Fin 10, Fin (23 / 2), Fin (25 / 2), Fin (67 / 5), Fin 14, Fin (29 / 2),
                     Fin 15, Fin (31 / 2), Fin 16, Fin 17],
      hb_wmo = Some [0, 1, 2, 3, 45, 51, 61, 63]\<rparr>"

definition ragged_response :: response where
  "ragged_response =
     \<lparr>r_current = Some [Fin (107 / 5), Fin (98 / 5), Fin 55, Fin (123 / 10), Fin 270, Fin 3],
      r_hourly = Some ragged_block\<rparr>"

definition ragged_env :: forecast_env where
  "ragged_env = \<lparr>client_setup = None, weather_api = (\<lambda>lat lon. Inr [ragged_response])\<rparr>"

definition ragged_data :: weather_data where
  "ragged_data =
     \<lparr>wd_request_limit_reached = False,
      wd_current =
        \<lparr>c_temp = 21, c_feels_like = Some 20, c_humidity = Some 55, c_wind_speed = Some 12,
         c_wind_deg = Some 270,
         c_weather = [\<lparr>w_description = ''bedeckt'', w_icon = icon_cloud, w_icon_code = ''3''\<rparr>]\<rparr>,
      wd_hourly =
        [\<lparr>h_time = Some 0, h_temp = Some 10, h_wmo = Some 0\<rparr>,
         \<lparr>h_time = Some 3600000000, h_temp = Some 12, h_wmo = Some 1\<rparr>,
         \<lparr>h_time = Some 7200000000, h_temp = Some 12, h_wmo = Some 2\<rparr>,
         \<lparr>h_time = Some 10800000000, h_temp = Some 13, h_wmo = Some 3\<rparr>,
         \<lparr>h_time = Some 14400000000, h_temp = Some 14, h_wmo = Some 45\<rparr>,
         \<lparr>h_time = Some 18000000000, h_temp = Some 14, h_wmo = Some 51\<rparr>,
         \<lparr>h_time = Some 21600000000, h_temp = Some 15, h_wmo = Some 61\<rparr>,
         \<lparr>h_time = Some 25200000000, h_temp = Some 16, h_wmo = Some 63\<rparr>]\<rparr>"

text \<open>
  Networks: one where the first service answers with an error document, the second with
  status 429 and the third with a location; and one where no service can be reached.
\<close>

definition no_float :: "string \<Rightarrow> error + pyfloat" where
  "no_float s = Inl (Raised ValueError ''could not convert string to float'')"

definition berlin_body :: jdict where
  "berlin_body =
     [(''status'', JStr ''success''), (''country'', JStr ''Germany''),
      (''regionName'', JStr ''Berlin''), (''city'', JStr ''Berlin''),
      (''lat'', JNum (Fin (105 / 2))), (''lon'', JNum (Fin (53 / 4)))]"

definition net_third_only :: net where
  "net_third_only =
     \<lparr>http_get = (\<lambda>url timeout.
        if url = ''http://ip-api.com/json''
        then Inr \<lparr>rsp_status_error = None, rsp_json = Inr berlin_body\<rparr>
        else if url = ''https://ipinfo.io/json''
        then Inr \<lparr>rsp_status_error = Some (Raised HTTPError ''429 Client Error''),
                  rsp_json = Inr []\<rparr>
        else Inr \<lparr>rsp_status_error = None,
                  rsp_json = Inr [(''error'', JStr ''true''), (''reason'', JStr ''RateLimited'')]\<rparr>),
      float_of_str = no_float\<rparr>"

definition net_down :: net where
  "net_down =
     \<lparr>http_get = (\<lambda>url timeout. Inl (Raised ConnectionError (''no route to '' @ url))),
      float_of_str = no_float\<rparr>"

definition berlin_geo :: geo where
  "berlin_geo = (Fin (105 / 2), Fin (53 / 4), Some ''Berlin'', Some ''Berlin'', Some ''Germany'')"






text \<open>
  A response whose hourly range ends two hours before it starts, with two temperatures and
  two weather codes; \<open>reversed_data\<close> is what it normalises to.
\<close>

definition reversed_block :: hourly_block where
  "reversed_block =
     \<lparr>hb_time = 7200, hb_time_end = 0, hb_interval = 3600,
      hb_t2m = Some [Fin 10, Fin 11], hb_wmo = Some [0, 1]\<rparr>"

definition reversed_response :: response where
  "reversed_response =
     \<lparr>r_current = Some [Fin (107 / 5), Fin (98 / 5), Fin 55, Fin (123 / 10), Fin 270, Fin 3],
      r_hourly = Some reversed_block\<rparr>"

definition reversed_env :: forecast_env where
  "reversed_env = \<lparr>client_setup = None, weather_api = (\<lambda>lat lon. Inr [reversed_response])\<rparr>"

definition reversed_data :: weather_data where
  "reversed_data =
     \<lparr>wd_request_limit_reached = False,
      wd_current =
        \<lparr>c_temp = 21, c_feels_like = Some 20, c_humidity = Some 55, c_wind_speed = Some 12,
         c_wind_deg = Some 270,
         c_weather = [\<lparr>w_description = ''bedeckt'', w_icon = icon_cloud, w_icon_code = ''3''\<rparr>]\<rparr>,
      wd_hourly = []\<rparr>"

text \<open>
  Two more networks: one where the first service answers, and one where only the second
  does, with the coordinates in one string, which \<open>float_of_loc\<close> converts.
\<close>

definition ipapi_body :: jdict where
  "ipapi_body =
     [(''ip'', JStr ''203.0.113.7''), (''city'', JStr ''Berlin''), (''region'', JStr ''Berlin''),
      (''country'', JStr ''DE''), (''country_name'', JStr ''Germany''),
      (''latitude'', JNum (Fin (105 / 2))), (''longitude'', JNum (Fin (53 / 4)))]"

definition ipinfo_body :: jdict where
  "ipinfo_body =
     [(''ip'', JStr ''203.0.113.7''), (''city'', JStr ''Berlin''), (''region'', JStr ''Berlin''),
      (''country'', JStr ''DE''), (''loc'', JStr ''52.5,13.25'')]"

definition float_of_loc :: "string \<Rightarrow> error + pyfloat" where
  "float_of_loc s =
     (if s = ''52.5'' then Inr (Fin (105 / 2))
      else if s = ''13.25'' then Inr (Fin (53 / 4))
      else Inl (Raised ValueError ''could not convert string to float''))"

definition net_first :: net where
  "net_first =
     \<lparr>http_get = (\<lambda>url timeout.
        if url = ''https://ipapi.co/json/''
        then Inr \<lparr>rsp_status_error = None, rsp_json = Inr ipapi_body\<rparr>
        else Inl (Raised ConnectionError (''no route to '' @ url))),
      float_of_str = float_of_loc\<rparr>"

definition net_second_only :: net where
  "net_second_only =
     \<lparr>http_get = (\<lambda>url timeout.
        if url = ''https://ipinfo.io/json''
        then Inr \<lparr>rsp_status_error = None, rsp_json = Inr ipinfo_body\<rparr>
        else Inl (Raised ConnectionError (''no route to '' @ url))),
      float_of_str = float_of_loc\<rparr>"


definition no_cache_run :: run_env where
  "no_cache_run =
     \<lparr>run_geo_first = net_third_only, run_forecast = no_cache_env,
      run_clock = clock_at 48300000000, run_geo_second = net_third_only\<rparr>"

section \<open>The weather-code lookup\<close>

lemma WMO_keys:
  "map fst WMO = [0, 1, 2, 3, 45, 48, 51, 53, 55, 56, 57, 61, 63, 65, 66, 67, 71, 73, 75, 77,
                  80, 81, 82, 85, 86, 95, 96, 99]"
  by (simp add: WMO_def)

text \<open>
  C3, as amended. The lookup is total on the integers. A code of the table gets the pair
  the table holds for it, and every other integer gets the one fixed pair of the question
  mark icon and the description "unbekannt".
\<close>

theorem wmo_lookup_total:
  "(code \<in> fst ` set WMO \<longrightarrow> (code, wmo_to_icon_desc code) \<in> set WMO)
   \<and> (code \<notin> fst ` set WMO \<longrightarrow> wmo_to_icon_desc code = (icon_unknown, ''unbekannt''))"
proof (intro conjI impI)
  assume "code \<in> fst ` set WMO"
  then obtain p where p: "map_of WMO code = Some p"
    by (metis map_of_eq_None_iff not_Some_eq)
  then have "(code, p) \<in> set WMO" by (rule map_of_SomeD)
  with p show "(code, wmo_to_icon_desc code) \<in> set WMO"
    by (simp add: wmo_to_icon_desc_def)
next
  assume "code \<notin> fst ` set WMO"
  then have "map_of WMO code = None" by (simp add: map_of_eq_None_iff)
  then show "wmo_to_icon_desc code = (icon_unknown, ''unbekannt'')"
    by (simp add: wmo_to_icon_desc_def)
qed

text \<open>The lookup at a code of the table, one of each icon, and at codes outside it.\<close>

theorem wmo_lookup_total_witness:
  "(0 \<in> fst ` set WMO \<and> (0, wmo_to_icon_desc 0) \<in> set WMO
      \<and> wmo_to_icon_desc 0 = (icon_sun, ''klar''))
   \<and> (4 \<notin> fst ` set WMO \<and> wmo_to_icon_desc 4 = (icon_unknown, ''unbekannt''))
   \<and> wmo_to_icon_desc 1 = (icon_mostly_sun, uml_u @ ''berwiegend klar'')
   \<and> wmo_to_icon_desc 2 = (icon_part_cloud, ''teilweise bew'' @ uml_o @ ''lkt'')
   \<and> wmo_to_icon_desc 3 = (icon_cloud, ''bedeckt'')
   \<and> wmo_to_icon_desc 45 = (icon_fog, ''nebel'')
   \<and> wmo_to_icon_desc 51 = (icon_sun_rain, ''niesel (leicht)'')
   \<and> wmo_to_icon_desc 65 = (icon_rain, ''regen (stark)'')
   \<and> wmo_to_icon_desc 71 = (icon_snow, ''schnee (leicht)'')
   \<and> wmo_to_icon_desc 86 = (icon_flake, ''schneeschauer (heftig)'')
   \<and> wmo_to_icon_desc 95 = (icon_thunder, ''gewitter'')
   \<and> wmo_to_icon_desc (- 1) = (icon_unknown, ''unbekannt'')
   \<and> wmo_to_icon_desc 100 = (icon_unknown, ''unbekannt'')"
  using wmo_lookup_total [of 0] wmo_lookup_total [of 4]
  by (simp add: WMO_def wmo_to_icon_desc_def)

text \<open>
  C3, as stated, names the fallback description "unknown". Code 4 is not in the table,
  and the lookup does not give that pair for it.
\<close>

theorem wmo_fallback_counterexample:
  "4 \<notin> fst ` set WMO \<and> wmo_to_icon_desc 4 \<noteq> (icon_unknown, ''unknown'')"
  by (simp add: WMO_def wmo_to_icon_desc_def)

section \<open>The payload of a concrete case\<close>

lemma capitalize_klar: "capitalize ''klar'' = ''Klar''"
  by code_simp

text \<open>
  C4. For the current conditions 21 degrees, felt 19, humidity 55, wind 12, description
  "klar", the sun icon and icon code "0", the location Berlin, Berlin, Germany, no warning
  and no hourly points, the payload has the text "(sun) 21(degree)C", the alt "klar", the
  class "0", and a tooltip that is exactly the six lines below, in this order, with no
  hourly section after them; this holds whatever the clock reads.
\<close>

theorem tooltip_concrete_case:
  "build_waybar_output response
     \<lparr>li_city = ''Berlin'', li_region = Some ''Berlin'', li_country = Some ''Germany''\<rparr>
     \<lparr>wd_request_limit_reached = False,
      wd_current = \<lparr>c_temp = 21, c_feels_like = Some 19, c_humidity = Some 55,
                    c_wind_speed = Some 12, c_wind_deg = None,
                    c_weather = [\<lparr>w_description = ''klar'', w_icon = icon_sun, w_icon_code = ''0''\<rparr>]\<rparr>,
      wd_hourly = []\<rparr>
     '''' (format_hourly_default clock)
   = Inr \<lparr>o_text = icon_sun @ '' 21'' @ degree @ ''C'',
          o_alt = ''klar'',
          o_tooltip = py_join nl
            [icon_pin @ '' Berlin, Berlin, Germany'',
             ''<span size='' @ sq @ ''xx-large'' @ sq @ ''>21'' @ degree @ ''C</span>'',
             ''<big>'' @ icon_sun @ '' Klar</big>'',
             ''Gef'' @ uml_u @ ''hlte: 19'' @ degree @ ''C'',
             ''Feuchtigkeit: 55%'',
             ''Wind: 12 km/h''],
          o_class = ''0''\<rparr>"
  by (simp add: build_waybar_output_def format_hourly_default_def format_hourly_forecast_def
      bind_err_def str_int_def
      dec_digits.simps digit_char_def str_opt_def str_opt_int_def capitalize_klar
      del: capitalize.simps)

section \<open>The hourly block\<close>

subsection \<open>Lines and characters\<close>




lemma digit_char_digit: "d < 10 \<Longrightarrow> digit_char d \<in> set ''0123456789''"
  unfolding digit_char_def by (rule nth_mem) simp

lemma dec_digits_set: "set (dec_digits n) \<subseteq> set ''0123456789''"
proof (induction n rule: dec_digits.induct)
  case (1 n)
  show ?case
  proof (cases "n < 10")
    case True
    then show ?thesis using digit_char_digit [of n] by (simp add: dec_digits.simps [of n])
  next
    case False
    then have "set (dec_digits (n div 10)) \<subseteq> set ''0123456789''" using 1 by simp
    moreover have "digit_char (n mod 10) \<in> set ''0123456789''" by (rule digit_char_digit) simp
    ultimately show ?thesis using False by (simp add: dec_digits.simps [of n])
  qed
qed











lemmas eval_hourly =
  clock_at_def four_points_def local_hour_start_def hour_us_def strftime_HM_def
  pad2_def dec_digits.simps digit_char_def hourly_rows_def in_future_def py_take_def
  format_hourly_forecast_def hourly_line_def bind_err_def str_opt_int_def str_int_def
  wmo_to_icon_desc_def WMO_def

lemma block_1325:
  "format_hourly_forecast (clock_at 44700000000) four_points 6 = Inr (py_join nl block_from_13)"
  by (simp add: eval_hourly block_from_13_def)

lemma block_1425:
  "format_hourly_forecast (clock_at 48300000000) four_points 6 = Inr (py_join nl block_from_14)"
  by (simp add: eval_hourly block_from_14_def)

subsection \<open>Which points are shown\<close>










subsection \<open>The lines of the block\<close>




section \<open>Formatting and the clock\<close>

lemma local_hour_start_cong:
  "utcoffset c1 = utcoffset c2 \<Longrightarrow> local_hour_start c1 t = local_hour_start c2 t"
  by (simp add: local_hour_start_def)

lemma format_hourly_same_hour:
  assumes off: "utcoffset c1 = utcoffset c2"
    and hr: "local_hour_start c1 (now c1) = local_hour_start c2 (now c2)"
  shows "format_hourly_forecast c1 hourly hours = format_hourly_forecast c2 hourly hours"
proof -
  have "in_future c1 = in_future c2"
  proof (rule ext)
    fix h show "in_future c1 h = in_future c2 h"
    proof (cases "h_time h")
      case None
      then show ?thesis by (simp add: in_future_def)
    next
      case (Some t)
      have "local_hour_start c1 t = local_hour_start c2 t"
        by (rule local_hour_start_cong [OF off])
      with Some hr show ?thesis by (simp add: in_future_def)
    qed
  qed
  then have rows: "hourly_rows c1 hourly hours = hourly_rows c2 hourly hours"
    by (simp add: hourly_rows_def)
  have "strftime_HM c1 = strftime_HM c2"
    by (rule ext) (simp add: strftime_HM_def off)
  then have "hourly_line c1 = hourly_line c2"
    by (intro ext) (simp add: hourly_line_def split: option.splits)
  with rows show ?thesis by (simp add: format_hourly_forecast_def)
qed

lemma build_same_block:
  assumes "build_waybar_output r li wd w f = build_waybar_output r li wd w g"
    and "c_weather (wd_current wd) \<noteq> []"
    and "f (wd_hourly wd) = Inr a" and "g (wd_hourly wd) = Inr b"
  shows "a = b"
proof -
  from assms(2) obtain x xs where "c_weather (wd_current wd) = x # xs"
    by (cases "c_weather (wd_current wd)") auto
  with assms(1,3,4) have "o_tooltip (projr (build_waybar_output r li wd w f))
      = o_tooltip (projr (build_waybar_output r li wd w g))" by simp
  then show ?thesis
    using \<open>c_weather (wd_current wd) = x # xs\<close> assms(3,4)
    by (simp add: build_waybar_output_def bind_err_def Let_def)
qed

lemma blocks_differ: "py_join nl block_from_13 \<noteq> py_join nl block_from_14"
proof
  assume "py_join nl block_from_13 = py_join nl block_from_14"
  then have "length (py_join nl block_from_13) = length (py_join nl block_from_14)" by simp
  then show False by (simp add: block_from_13_def block_from_14_def)
qed

text \<open>
  C9, as amended. The formatter reads the clock and the local zone. Two invocations with
  identical location, weather data and warning yield the same payload when they run in
  the same zone and within the same local clock hour, or when the hourly list is empty.
\<close>

theorem formatting_deterministic:
  assumes "(utcoffset c1 = utcoffset c2
              \<and> local_hour_start c1 (now c1) = local_hour_start c2 (now c2))
           \<or> wd_hourly weather_data = []"
  shows "build_waybar_output response location_info weather_data warning (format_hourly_default c1)
       = build_waybar_output response location_info weather_data warning (format_hourly_default c2)"
proof -
  have eq: "format_hourly_default c1 (wd_hourly weather_data)
      = format_hourly_default c2 (wd_hourly weather_data)"
    using assms
  proof
    assume "utcoffset c1 = utcoffset c2
              \<and> local_hour_start c1 (now c1) = local_hour_start c2 (now c2)"
    then have "format_hourly_forecast c1 (wd_hourly weather_data) 6
        = format_hourly_forecast c2 (wd_hourly weather_data) 6"
      by (intro format_hourly_same_hour) simp_all
    then show ?thesis by (simp add: format_hourly_default_def)
  next
    assume "wd_hourly weather_data = []"
    then show ?thesis by (simp add: format_hourly_default_def format_hourly_forecast_def)
  qed
  show ?thesis unfolding build_waybar_output_def eq by (rule refl)
qed

text \<open>Two runs at 14:25 and at 14:36 local time, on the four hourly points.\<close>

theorem formatting_deterministic_witness:
  "utcoffset (clock_at 48300000000) = utcoffset (clock_at 49000000000)
   \<and> local_hour_start (clock_at 48300000000) (now (clock_at 48300000000))
       = local_hour_start (clock_at 49000000000) (now (clock_at 49000000000))
   \<and> build_waybar_output (None :: response option) berlin afternoon_data []
         (format_hourly_default (clock_at 48300000000))
       = build_waybar_output (None :: response option) berlin afternoon_data []
         (format_hourly_default (clock_at 49000000000))"
proof -
  have a: "utcoffset (clock_at 48300000000) = utcoffset (clock_at 49000000000)"
    by (simp add: clock_at_def)
  have b: "local_hour_start (clock_at 48300000000) (now (clock_at 48300000000))
       = local_hour_start (clock_at 49000000000) (now (clock_at 49000000000))"
    by (simp add: clock_at_def local_hour_start_def hour_us_def)
  from a b have "(utcoffset (clock_at 48300000000) = utcoffset (clock_at 49000000000)
              \<and> local_hour_start (clock_at 48300000000) (now (clock_at 48300000000))
       = local_hour_start (clock_at 49000000000) (now (clock_at 49000000000)))
           \<or> wd_hourly afternoon_data = []" by simp
  from formatting_deterministic [where response = "None :: response option"
      and location_info = berlin and warning = "[]", OF this] a b
  show ?thesis by blast
qed

text \<open>
  C9, as stated, holds regardless of when each invocation runs. With the same location,
  weather data and warning, the payload built at 13:25 local time differs from the one
  built at 14:25: the first lists the 13:00 point, the second does not.
\<close>

theorem formatting_clock_counterexample:
  "build_waybar_output (None :: response option) berlin afternoon_data []
     (format_hourly_default (clock_at 44700000000))
   \<noteq> build_waybar_output (None :: response option) berlin afternoon_data []
     (format_hourly_default (clock_at 48300000000))"
proof
  assume eq: "build_waybar_output (None :: response option) berlin afternoon_data []
      (format_hourly_default (clock_at 44700000000))
    = build_waybar_output (None :: response option) berlin afternoon_data []
      (format_hourly_default (clock_at 48300000000))"
  have "c_weather (wd_current afternoon_data) \<noteq> []"
    by (simp add: afternoon_data_def clear_sky_def)
  moreover have "format_hourly_default (clock_at 44700000000) (wd_hourly afternoon_data)
      = Inr (py_join nl block_from_13)"
    by (simp add: format_hourly_default_def afternoon_data_def block_1325)
  moreover have "format_hourly_default (clock_at 48300000000) (wd_hourly afternoon_data)
      = Inr (py_join nl block_from_14)"
    by (simp add: format_hourly_default_def afternoon_data_def block_1425)
  ultimately have "py_join nl block_from_13 = py_join nl block_from_14"
    using build_same_block [OF eq] by blast
  with blocks_differ show False by simp
qed

section \<open>The normalised forecast\<close>

lemma mapM_err_InrD:
  "mapM_err f xs = Inr ys \<Longrightarrow> length ys = length xs \<and> (\<forall>i < length xs. f (xs ! i) = Inr (ys ! i))"
proof (induction xs arbitrary: ys)
  case Nil
  then show ?case by simp
next
  case (Cons x xs)
  from Cons.prems obtain y ys' where fx: "f x = Inr y" and rest: "mapM_err f xs = Inr ys'"
    and ys: "ys = y # ys'"
    by (auto split: sum.splits)
  from Cons.IH [OF rest] have len: "length ys' = length xs"
    and nth: "\<forall>i < length xs. f (xs ! i) = Inr (ys' ! i)" by simp_all
  show ?case
  proof (intro conjI allI impI)
    show "length ys = length (x # xs)" using len ys by simp
  next
    fix i assume "i < length (x # xs)"
    then show "f ((x # xs) ! i) = Inr (ys ! i)"
      using fx nth ys by (cases i) simp_all
  qed
qed

lemma mapM_err_not_error:
  "(\<And>x. x \<in> set xs \<Longrightarrow> f x \<noteq> Inl e) \<Longrightarrow> mapM_err f xs \<noteq> Inl e"
  by (induction xs) (auto split: sum.splits)

lemma hour_entry_InrD:
  assumes "hour_entry start stop n t2m wmo i = Inr p"
  shows "i < length t2m \<and> i < length wmo
       \<and> (\<exists>v. py_round (t2m ! i) = Inr v \<and> h_temp p = Some v)
       \<and> h_wmo p = Some (wmo ! i) \<and> h_time p \<noteq> None"
  using assms
  by (auto simp: hour_entry_def bind_err_def py_index_def Let_def split: sum.splits if_splits)

lemma py_round_no_IndexError: "py_round x \<noteq> Inl (Raised IndexError m)"
  by (simp add: py_round_def split: pyfloat.splits)

lemma hour_entry_no_IndexError:
  assumes "i < length t2m" and "i < length wmo"
  shows "hour_entry start stop n t2m wmo i \<noteq> Inl (Raised IndexError m)"
  using assms py_round_no_IndexError [of "t2m ! i" m]
  by (auto simp: hour_entry_def bind_err_def py_index_def Let_def split: sum.splits)

lemma hours_of_no_IndexError: "hours_of r \<noteq> Inl (Raised IndexError m)"
proof (cases "r_hourly r")
  case None
  then show ?thesis by (simp add: hours_of_def none_attr_def)
next
  case (Some hb)
  show ?thesis
  proof (cases "hb_t2m hb")
    case None
    with Some show ?thesis
      by (auto simp: hours_of_def none_attr_def bind_err_def fromtimestamp_def floordiv_def
          split: sum.splits if_splits)
  next
    case t: (Some t2m)
    show ?thesis
    proof (cases "hb_wmo hb")
      case None
      with Some t show ?thesis
        by (auto simp: hours_of_def none_attr_def bind_err_def fromtimestamp_def floordiv_def
            split: sum.splits if_splits)
    next
      case w: (Some wmo)
      have loop: "mapM_err (hour_entry start stop n t2m wmo)
            [0 ..< nat (min n (min (int (length t2m)) (int (length wmo))))]
          \<noteq> Inl (Raised IndexError m)" for start stop n
        by (rule mapM_err_not_error, rule hour_entry_no_IndexError) auto
      with Some t w show ?thesis
        by (auto simp: hours_of_def bind_err_def fromtimestamp_def floordiv_def Let_def
            split: sum.splits if_splits)
    qed
  qed
qed

lemma hours_of_InrD:
  assumes "hours_of r = Inr hs"
  shows "\<exists>hb t2m wmo. r_hourly r = Some hb \<and> hb_t2m hb = Some t2m \<and> hb_wmo hb = Some wmo
       \<and> hb_interval hb \<noteq> 0
       \<and> length hs = nat (min ((hb_time_end hb - hb_time hb) div hb_interval hb)
                               (min (int (length t2m)) (int (length wmo))))
       \<and> (\<forall>i < length hs. i < length t2m \<and> i < length wmo
              \<and> (\<exists>v. py_round (t2m ! i) = Inr v \<and> h_temp (hs ! i) = Some v)
              \<and> h_wmo (hs ! i) = Some (wmo ! i) \<and> h_time (hs ! i) \<noteq> None)"
proof -
  from assms obtain hb where hb: "r_hourly r = Some hb"
    by (cases "r_hourly r") (simp_all add: hours_of_def)
  from assms hb obtain t2m where t: "hb_t2m hb = Some t2m"
    by (cases "hb_t2m hb")
       (auto simp: hours_of_def bind_err_def split: sum.splits)
  from assms hb t obtain wmo where w: "hb_wmo hb = Some wmo"
    by (cases "hb_wmo hb")
       (auto simp: hours_of_def bind_err_def split: sum.splits)
  let ?n = "(hb_time_end hb - hb_time hb) div hb_interval hb"
  let ?k = "nat (min ?n (min (int (length t2m)) (int (length wmo))))"
  from assms hb t w obtain start stop where step: "hb_interval hb \<noteq> 0"
    and loop: "mapM_err (hour_entry start stop ?n t2m wmo) [0 ..< ?k] = Inr hs"
    by (auto simp: hours_of_def bind_err_def floordiv_def Let_def split: sum.splits if_splits)
  from mapM_err_InrD [OF loop] have len: "length hs = ?k"
    and nth: "\<forall>i < ?k. hour_entry start stop ?n t2m wmo i = Inr (hs ! i)"
    by simp_all
  have "i < length t2m \<and> i < length wmo
      \<and> (\<exists>v. py_round (t2m ! i) = Inr v \<and> h_temp (hs ! i) = Some v)
      \<and> h_wmo (hs ! i) = Some (wmo ! i) \<and> h_time (hs ! i) \<noteq> None" if "i < length hs" for i
    using nth that len by (intro hour_entry_InrD [of start stop ?n]) simp
  with hb t w step len show ?thesis by blast
qed

lemma fetch_weather_InrD:
  assumes "fetch_weather env lat lon = Inr (wd, r)"
  shows "hours_of r = Inr (wd_hourly wd) \<and> current_of r = Inr (wd_current wd)
       \<and> \<not> wd_request_limit_reached wd"
  using assms
  by (auto simp: fetch_weather_def bind_err_def split: sum.splits)

lemma fetch_weather_api:
  assumes "fetch_weather env lat lon = Inr (wd, r)"
  shows "\<exists>rest. weather_api env lat lon = Inr (r # rest)"
proof -
  from assms obtain rs where api: "weather_api env lat lon = Inr rs"
    by (cases "weather_api env lat lon") (simp_all add: fetch_weather_def bind_err_def)
  show ?thesis
  proof (cases rs)
    case Nil
    with assms api show ?thesis by (simp add: fetch_weather_def bind_err_def py_index_def)
  next
    case (Cons x xs)
    with assms api have "x = r"
      by (auto simp: fetch_weather_def bind_err_def py_index_def split: sum.splits)
    with api Cons show ?thesis by simp
  qed
qed

lemma get_weather_ok:
  "client_setup env = None \<Longrightarrow>
   get_weather env lat lon place_name region country =
     (let li = \<lparr>li_city = (case place_name of
                     Some s \<Rightarrow> if s \<noteq> [] then s else fmt_fixed 2 lat @ '','' @ fmt_fixed 2 lon
                   | None \<Rightarrow> fmt_fixed 2 lat @ '','' @ fmt_fixed 2 lon),
                 li_region = region, li_country = country\<rparr>
      in case fetch_weather env lat lon of
           Inr (wd, r) \<Rightarrow> Inr (wd, li, Some r)
         | Inl e \<Rightarrow> Inr (fallback_weather_data, li, None))"
  by (simp add: get_weather_def)

lemma get_weather_SomeD:
  assumes "get_weather env lat lon place_name region country = Inr (wd, li, Some r)"
  shows "fetch_weather env lat lon = Inr (wd, r)"
  using assms by (auto simp: get_weather_def Let_def split: option.splits sum.splits)

lemma fetch_hours_no_IndexError:
  assumes "weather_api env lat lon = Inr (resp # rest)" and "current_of resp = Inr c"
  shows "fetch_weather env lat lon \<noteq> Inl (Raised IndexError m)"
  using assms hours_of_no_IndexError [of resp m]
  by (cases "hours_of resp") (simp_all add: fetch_weather_def bind_err_def py_index_def)

text \<open>
  C5, as amended. When \<^verbatim>\<open>get_weather\<close> returns a response, that response is the first one
  the forecast service returned, and the hourly sequence of the snapshot has as many points
  as the minimum of the declared step count (the length of the range divided by the step,
  rounded down), the number of temperatures and the number of weather codes of that
  response, or none when that minimum is negative. Point \<open>i\<close> carries temperature \<open>i\<close>,
  rounded, and weather code \<open>i\<close>, and both indices are inside their arrays. Whatever the
  service returns, once the current block is read the normalisation never fails with an
  index error.
\<close>

theorem hourly_truncation:
  "(get_weather env lat lon place_name region country = Inr (wd, li, Some r) \<longrightarrow>
      (\<exists>rest hb t2m wmo.
           weather_api env lat lon = Inr (r # rest)
         \<and> r_hourly r = Some hb \<and> hb_t2m hb = Some t2m \<and> hb_wmo hb = Some wmo
         \<and> hb_interval hb \<noteq> 0
         \<and> int (length (wd_hourly wd))
             = max 0 (min ((hb_time_end hb - hb_time hb) div hb_interval hb)
                          (min (int (length t2m)) (int (length wmo))))
         \<and> (\<forall>i < length (wd_hourly wd). i < length t2m \<and> i < length wmo
               \<and> (\<exists>v. py_round (t2m ! i) = Inr v \<and> h_temp (wd_hourly wd ! i) = Some v)
               \<and> h_wmo (wd_hourly wd ! i) = Some (wmo ! i))))
   \<and> (\<forall>resp rest c m. weather_api env lat lon = Inr (resp # rest) \<and> current_of resp = Inr c
         \<longrightarrow> fetch_weather env lat lon \<noteq> Inl (Raised IndexError m))"
proof (intro conjI impI allI)
  assume "get_weather env lat lon place_name region country = Inr (wd, li, Some r)"
  then have f: "fetch_weather env lat lon = Inr (wd, r)" by (rule get_weather_SomeD)
  from fetch_weather_api [OF f] obtain rest where api: "weather_api env lat lon = Inr (r # rest)"
    by blast
  from f have "hours_of r = Inr (wd_hourly wd)" by (simp add: fetch_weather_InrD)
  from hours_of_InrD [OF this] obtain hb t2m wmo where
    hb: "r_hourly r = Some hb" "hb_t2m hb = Some t2m" "hb_wmo hb = Some wmo"
      "hb_interval hb \<noteq> 0"
    and len: "length (wd_hourly wd)
        = nat (min ((hb_time_end hb - hb_time hb) div hb_interval hb)
                   (min (int (length t2m)) (int (length wmo))))"
    and pts: "\<forall>i < length (wd_hourly wd). i < length t2m \<and> i < length wmo
         \<and> (\<exists>v. py_round (t2m ! i) = Inr v \<and> h_temp (wd_hourly wd ! i) = Some v)
         \<and> h_wmo (wd_hourly wd ! i) = Some (wmo ! i) \<and> h_time (wd_hourly wd ! i) \<noteq> None"
    by blast
  from len have len': "int (length (wd_hourly wd))
      = max 0 (min ((hb_time_end hb - hb_time hb) div hb_interval hb)
                   (min (int (length t2m)) (int (length wmo))))"
    by simp
  from pts have pts': "\<forall>i < length (wd_hourly wd). i < length t2m \<and> i < length wmo
         \<and> (\<exists>v. py_round (t2m ! i) = Inr v \<and> h_temp (wd_hourly wd ! i) = Some v)
         \<and> h_wmo (wd_hourly wd ! i) = Some (wmo ! i)"
    by blast
  show "\<exists>rest hb t2m wmo.
           weather_api env lat lon = Inr (r # rest)
         \<and> r_hourly r = Some hb \<and> hb_t2m hb = Some t2m \<and> hb_wmo hb = Some wmo
         \<and> hb_interval hb \<noteq> 0
         \<and> int (length (wd_hourly wd))
             = max 0 (min ((hb_time_end hb - hb_time hb) div hb_interval hb)
                          (min (int (length t2m)) (int (length wmo))))
         \<and> (\<forall>i < length (wd_hourly wd). i < length t2m \<and> i < length wmo
               \<and> (\<exists>v. py_round (t2m ! i) = Inr v \<and> h_temp (wd_hourly wd ! i) = Some v)
               \<and> h_wmo (wd_hourly wd ! i) = Some (wmo ! i))"
    using api hb len' pts' by blast
next
  fix resp rest c m
  assume "weather_api env lat lon = Inr (resp # rest) \<and> current_of resp = Inr c"
  then show "fetch_weather env lat lon \<noteq> Inl (Raised IndexError m)"
    using fetch_hours_no_IndexError by blast
qed

lemma ragged_fetch:
  "fetch_weather ragged_env (Fin 52) (Fin 13) = Inr (ragged_data, ragged_response)"
  by code_simp

lemma ragged_weather:
  "get_weather ragged_env (Fin 52) (Fin 13) (Some ''Berlin'') (Some ''Berlin'') (Some ''Germany'')
     = Inr (ragged_data, berlin, Some ragged_response)"
proof -
  have "client_setup ragged_env = None" by (simp add: ragged_env_def)
  then show ?thesis by (simp add: get_weather_ok ragged_fetch berlin_def)
qed

text \<open>
  Ten temperatures, eight weather codes and a declared count of twelve: eight points, with
  the first eight temperatures, rounded, and the eight codes.
\<close>

theorem hourly_truncation_witness:
  "get_weather ragged_env (Fin 52) (Fin 13) (Some ''Berlin'') (Some ''Berlin'') (Some ''Germany'')
     = Inr (ragged_data, berlin, Some ragged_response)
   \<and> weather_api ragged_env (Fin 52) (Fin 13) = Inr [ragged_response]
   \<and> r_hourly ragged_response = Some ragged_block
   \<and> (hb_time_end ragged_block - hb_time ragged_block) div hb_interval ragged_block = 12
   \<and> map_option length (hb_t2m ragged_block) = Some 10
   \<and> map_option length (hb_wmo ragged_block) = Some 8
   \<and> length (wd_hourly ragged_data) = 8
   \<and> map h_temp (wd_hourly ragged_data)
       = [Some 10, Some 12, Some 12, Some 13, Some 14, Some 14, Some 15, Some 16]
   \<and> map h_wmo (wd_hourly ragged_data)
       = [Some 0, Some 1, Some 2, Some 3, Some 45, Some 51, Some 61, Some 63]
   \<and> current_of ragged_response = Inr (wd_current ragged_data)
   \<and> fetch_weather ragged_env (Fin 52) (Fin 13) \<noteq> Inl (Raised IndexError ''index out of range'')"
proof -
  have c: "current_of ragged_response = Inr (wd_current ragged_data)"
    using ragged_fetch by (simp add: fetch_weather_InrD)
  have a: "weather_api ragged_env (Fin 52) (Fin 13) = Inr [ragged_response]"
    by (simp add: ragged_env_def)
  from hourly_truncation [of ragged_env "Fin 52" "Fin 13" "Some ''Berlin''" "Some ''Berlin''"
      "Some ''Germany''" ragged_data berlin ragged_response] ragged_weather a c
  have "int (length (wd_hourly ragged_data)) = 8
      \<and> fetch_weather ragged_env (Fin 52) (Fin 13) \<noteq> Inl (Raised IndexError ''index out of range'')"
    by (auto simp: ragged_response_def ragged_block_def)
  with ragged_weather a c show ?thesis
    by (simp add: ragged_data_def ragged_response_def ragged_block_def)
qed

lemma reversed_fetch:
  "fetch_weather reversed_env (Fin 52) (Fin 13) = Inr (reversed_data, reversed_response)"
  by code_simp

text \<open>
  C5, as stated, makes the length equal to the minimum. For a range that ends two hours
  before it starts the declared count is -2; with two temperatures and two codes the
  minimum is -2, the fetch succeeds, and the hourly sequence is empty.
\<close>

theorem hourly_truncation_counterexample:
  "get_weather reversed_env (Fin 52) (Fin 13) (Some ''Berlin'') (Some ''Berlin'') (Some ''Germany'')
     = Inr (reversed_data, berlin, Some reversed_response)
   \<and> r_hourly reversed_response = Some reversed_block
   \<and> hb_t2m reversed_block = Some [Fin 10, Fin 11]
   \<and> hb_wmo reversed_block = Some [0, 1]
   \<and> min ((hb_time_end reversed_block - hb_time reversed_block) div hb_interval reversed_block)
         (min (int (length [Fin 10, Fin 11])) (int (length [0 :: int, 1]))) = - 2
   \<and> length (wd_hourly reversed_data) = 0"
proof -
  have "client_setup reversed_env = None" by (simp add: reversed_env_def)
  then have "get_weather reversed_env (Fin 52) (Fin 13) (Some ''Berlin'') (Some ''Berlin'')
      (Some ''Germany'') = Inr (reversed_data, berlin, Some reversed_response)"
    by (simp add: get_weather_ok reversed_fetch berlin_def)
  then show ?thesis
    by (simp add: reversed_data_def reversed_response_def reversed_block_def)
qed

section \<open>The degraded snapshot\<close>

text \<open>
  C1, as amended. Building the cached session and the client happens before the guarded
  block: when that raises, \<^verbatim>\<open>get_weather\<close> raises the same error, and in no other case does
  it raise. Otherwise it returns, and whenever a step of the forecast request or of the
  normalisation raises, it returns no response, the degraded flag set, the fixed
  placeholder as current conditions (zeros, "unbekannt", the question mark icon), and an
  empty hourly sequence. The location has the region and country it was given; its city is
  the place name when a non-empty one was given, and the two-decimal "lat,lon" otherwise.
\<close>

theorem get_weather_degrades:
  "(client_setup env = None \<longrightarrow>
      (\<exists>wd li r. get_weather env lat lon place_name region country = Inr (wd, li, r)
         \<and> (\<forall>s. place_name = Some s \<and> s \<noteq> [] \<longrightarrow> li_city li = s)
         \<and> (place_name = None \<or> place_name = Some [] \<longrightarrow>
              li_city li = fmt_fixed 2 lat @ '','' @ fmt_fixed 2 lon)
         \<and> li_region li = region \<and> li_country li = country
         \<and> ((\<exists>e. fetch_weather env lat lon = Inl e) \<longrightarrow>
              r = None \<and> wd_request_limit_reached wd
              \<and> wd_current wd =
                  \<lparr>c_temp = 0, c_feels_like = Some 0, c_humidity = Some 0,
                   c_wind_speed = Some 0, c_wind_deg = Some 0,
                   c_weather = [\<lparr>w_description = ''unbekannt'', w_icon = icon_unknown,
                                 w_icon_code = ''-1''\<rparr>]\<rparr>
              \<and> wd_hourly wd = [])))
   \<and> (\<forall>e. client_setup env = Some e \<longrightarrow>
         get_weather env lat lon place_name region country = Inl e)"
proof (intro conjI impI allI)
  assume noerr: "client_setup env = None"
  show "\<exists>wd li r. get_weather env lat lon place_name region country = Inr (wd, li, r)
         \<and> (\<forall>s. place_name = Some s \<and> s \<noteq> [] \<longrightarrow> li_city li = s)
         \<and> (place_name = None \<or> place_name = Some [] \<longrightarrow>
              li_city li = fmt_fixed 2 lat @ '','' @ fmt_fixed 2 lon)
         \<and> li_region li = region \<and> li_country li = country
         \<and> ((\<exists>e. fetch_weather env lat lon = Inl e) \<longrightarrow>
              r = None \<and> wd_request_limit_reached wd
              \<and> wd_current wd =
                  \<lparr>c_temp = 0, c_feels_like = Some 0, c_humidity = Some 0,
                   c_wind_speed = Some 0, c_wind_deg = Some 0,
                   c_weather = [\<lparr>w_description = ''unbekannt'', w_icon = icon_unknown,
                                 w_icon_code = ''-1''\<rparr>]\<rparr>
              \<and> wd_hourly wd = [])"
  proof (cases "fetch_weather env lat lon")
    case (Inl e)
    then show ?thesis
      by (auto simp: get_weather_ok [OF noerr] fallback_weather_data_def)
  next
    case (Inr p)
    then show ?thesis
      by (cases p) (auto simp: get_weather_ok [OF noerr])
  qed
next
  fix e assume "client_setup env = Some e"
  then show "get_weather env lat lon place_name region country = Inl e"
    by (simp add: get_weather_def)
qed

lemma offline_fetch:
  "fetch_weather offline_env lat lon = Inl (Raised ConnectionError ''connection refused'')"
  by (simp add: fetch_weather_def offline_env_def bind_err_def)

text \<open>A refused connection, with the place name Berlin; and a cache file that cannot be opened.\<close>

theorem get_weather_degrades_witness:
  "client_setup offline_env = None
   \<and> fetch_weather offline_env (Fin (105 / 2)) (Fin (53 / 4))
       = Inl (Raised ConnectionError ''connection refused'')
   \<and> get_weather offline_env (Fin (105 / 2)) (Fin (53 / 4)) (Some ''Berlin'') (Some ''Berlin'')
         (Some ''Germany'')
       = Inr (fallback_weather_data, berlin, None)
   \<and> client_setup no_cache_env = Some (Raised OSError ''unable to open database file'')
   \<and> get_weather no_cache_env (Fin (105 / 2)) (Fin (53 / 4)) (Some ''Berlin'') (Some ''Berlin'')
         (Some ''Germany'')
       = Inl (Raised OSError ''unable to open database file'')"
proof -
  have s: "client_setup offline_env = None" by (simp add: offline_env_def)
  have f: "fetch_weather offline_env (Fin (105 / 2)) (Fin (53 / 4))
       = Inl (Raised ConnectionError ''connection refused'')" by (rule offline_fetch)
  have g: "get_weather offline_env (Fin (105 / 2)) (Fin (53 / 4)) (Some ''Berlin'')
      (Some ''Berlin'') (Some ''Germany'') = Inr (fallback_weather_data, berlin, None)"
    using s by (simp add: get_weather_ok offline_fetch berlin_def)
  have h: "client_setup no_cache_env = Some (Raised OSError ''unable to open database file'')"
    by (simp add: no_cache_env_def)
  from get_weather_degrades [of no_cache_env "Fin (105 / 2)" "Fin (53 / 4)" "Some ''Berlin''"
      "Some ''Berlin''" "Some ''Germany''"] h
  have k: "get_weather no_cache_env (Fin (105 / 2)) (Fin (53 / 4)) (Some ''Berlin'')
      (Some ''Berlin'') (Some ''Germany'') = Inl (Raised OSError ''unable to open database file'')"
    by blast
  from get_weather_degrades [of offline_env "Fin (105 / 2)" "Fin (53 / 4)" "Some ''Berlin''"
      "Some ''Berlin''" "Some ''Germany''"] s f g h k
  show ?thesis by blast
qed

lemma coords_text:
  "fmt_fixed 2 (Fin (105 / 2)) = ''52.50''" "fmt_fixed 2 (Fin (53 / 4)) = ''13.25''"
  by code_simp+

text \<open>
  C1, as stated, fails twice. A place name that is provided but empty is replaced by the
  coordinates; and when the cache file cannot be opened, the exception leaves
  \<^verbatim>\<open>get_weather\<close>.
\<close>

theorem get_weather_counterexample:
  "get_weather offline_env (Fin (105 / 2)) (Fin (53 / 4)) (Some '''') None None
     = Inr (fallback_weather_data,
            \<lparr>li_city = ''52.50,13.25'', li_region = None, li_country = None\<rparr>, None)
   \<and> get_weather no_cache_env (Fin (105 / 2)) (Fin (53 / 4)) (Some ''Berlin'') None None
     = Inl (Raised OSError ''unable to open database file'')"
proof -
  have "client_setup offline_env = None" by (simp add: offline_env_def)
  then have "get_weather offline_env (Fin (105 / 2)) (Fin (53 / 4)) (Some '''') None None
     = Inr (fallback_weather_data,
            \<lparr>li_city = ''52.50,13.25'', li_region = None, li_country = None\<rparr>, None)"
    by (simp add: get_weather_ok offline_fetch coords_text)
  moreover have "get_weather no_cache_env (Fin (105 / 2)) (Fin (53 / 4)) (Some ''Berlin'') None None
     = Inl (Raised OSError ''unable to open database file'')"
    by (simp add: get_weather_def no_cache_env_def)
  ultimately show ?thesis by simp
qed

section \<open>The provider chain\<close>

lemma try_providers_first:
  assumes "\<forall>q \<in> set before. isl (attempt nt timeout q)" and "attempt nt timeout p = Inr loc"
  shows "try_providers nt timeout (before @ p # after) last_err = Inr loc"
  using assms
proof (induction before arbitrary: last_err)
  case Nil
  then show ?case by simp
next
  case (Cons q qs)
  then show ?case by (cases "attempt nt timeout q") simp_all
qed

lemma try_providers_all_fail:
  assumes "\<forall>q \<in> set ps. isl (attempt nt timeout q)" and "ps \<noteq> []"
  shows "try_providers nt timeout ps last_err =
           Inl (Raised RuntimeError (''IP-Geolokation fehlgeschlagen: ''
                  @ exn_str (projl (attempt nt timeout (last ps)))))"
  using assms
proof (induction ps arbitrary: last_err)
  case Nil
  then show ?case by simp
next
  case (Cons q qs)
  then obtain e where e: "attempt nt timeout q = Inl e"
    by (cases "attempt nt timeout q") auto
  show ?case
  proof (cases "qs = []")
    case True
    with e show ?thesis by simp
  next
    case False
    with Cons e show ?thesis by simp
  qed
qed

lemma try_providers_InlD:
  "try_providers nt timeout ps last_err = Inl e \<Longrightarrow> \<forall>q \<in> set ps. isl (attempt nt timeout q)"
proof (induction ps arbitrary: last_err)
  case Nil
  then show ?case by simp
next
  case (Cons p ps)
  then show ?case by (cases "attempt nt timeout p") auto
qed

lemma attempt_Inr_iff:
  "attempt nt timeout p = Inr loc \<longleftrightarrow>
     (\<exists>r d. http_get nt (fst p) timeout = Inr r \<and> rsp_status_error r = None
           \<and> rsp_json r = Inr d \<and> snd p nt d = Inr loc)"
  by (auto simp: attempt_def bind_err_def split: sum.splits option.splits)

text \<open>
  C2, as amended. The providers are tried in their fixed order. An attempt succeeds
  exactly when the request returns, the status check raises nothing, the body parses as
  JSON and the provider's extraction rule, with its conversions to float, returns. The
  result is the normalised location of the first provider whose attempt succeeds, whatever
  the failures of the providers before it. \<^verbatim>\<open>get_ip_location\<close> raises only when every
  attempt fails, and then the message of its RuntimeError ends with the text of the last
  provider's error.
\<close>

theorem geolocation_fallback:
  "providers
     = [(''https://ipapi.co/json/'', parse_ipapi), (''https://ipinfo.io/json'', parse_ipinfo),
        (''http://ip-api.com/json'', parse_ip_api)]
   \<and> (\<forall>p loc. attempt nt timeout p = Inr loc \<longleftrightarrow>
         (\<exists>r d. http_get nt (fst p) timeout = Inr r \<and> rsp_status_error r = None
               \<and> rsp_json r = Inr d \<and> snd p nt d = Inr loc))
   \<and> (\<forall>before p after loc.
         providers = before @ p # after
         \<and> (\<forall>q \<in> set before. isl (attempt nt timeout q))
         \<and> attempt nt timeout p = Inr loc
         \<longrightarrow> get_ip_location nt timeout = Inr loc)
   \<and> ((\<forall>q \<in> set providers. isl (attempt nt timeout q)) \<longrightarrow>
        get_ip_location nt timeout =
          Inl (Raised RuntimeError (''IP-Geolokation fehlgeschlagen: ''
                 @ exn_str (projl (attempt nt timeout (last providers))))))
   \<and> (\<forall>e. get_ip_location nt timeout = Inl e \<longrightarrow>
         (\<forall>q \<in> set providers. isl (attempt nt timeout q)))"
proof (intro conjI allI impI)
  show "providers
     = [(''https://ipapi.co/json/'', parse_ipapi), (''https://ipinfo.io/json'', parse_ipinfo),
        (''http://ip-api.com/json'', parse_ip_api)]"
    by (simp add: providers_def)
next
  fix p loc
  show "attempt nt timeout p = Inr loc \<longleftrightarrow>
         (\<exists>r d. http_get nt (fst p) timeout = Inr r \<and> rsp_status_error r = None
               \<and> rsp_json r = Inr d \<and> snd p nt d = Inr loc)"
    by (rule attempt_Inr_iff)
next
  fix before p after loc
  assume "providers = before @ p # after
         \<and> (\<forall>q \<in> set before. isl (attempt nt timeout q))
         \<and> attempt nt timeout p = Inr loc"
  then have split: "providers = before @ p # after"
    and fails: "\<forall>q \<in> set before. isl (attempt nt timeout q)"
    and ok: "attempt nt timeout p = Inr loc" by simp_all
  show "get_ip_location nt timeout = Inr loc"
    unfolding get_ip_location_def split using fails ok by (rule try_providers_first)
next
  assume "\<forall>q \<in> set providers. isl (attempt nt timeout q)"
  moreover have "providers \<noteq> []" by (simp add: providers_def)
  ultimately show "get_ip_location nt timeout =
          Inl (Raised RuntimeError (''IP-Geolokation fehlgeschlagen: ''
                 @ exn_str (projl (attempt nt timeout (last providers)))))"
    unfolding get_ip_location_def by (rule try_providers_all_fail)
next
  fix e
  assume "get_ip_location nt timeout = Inl e"
  then show "\<forall>q \<in> set providers. isl (attempt nt timeout q)"
    unfolding get_ip_location_def by (rule try_providers_InlD)
qed

lemma providers_split_1:
  "providers = [] @ (''https://ipapi.co/json/'', parse_ipapi)
     # [(''https://ipinfo.io/json'', parse_ipinfo), (''http://ip-api.com/json'', parse_ip_api)]"
  by (simp add: providers_def)

lemma providers_split_2:
  "providers = [(''https://ipapi.co/json/'', parse_ipapi)] @ (''https://ipinfo.io/json'', parse_ipinfo)
     # [(''http://ip-api.com/json'', parse_ip_api)]"
  by (simp add: providers_def)

lemma providers_split:
  "providers = [(''https://ipapi.co/json/'', parse_ipapi), (''https://ipinfo.io/json'', parse_ipinfo)]
     @ (''http://ip-api.com/json'', parse_ip_api) # []"
  by (simp add: providers_def)

lemma first_1:
  "attempt net_first 4 (''https://ipapi.co/json/'', parse_ipapi)
     = Inr (Fin (105 / 2), Fin (53 / 4), Some ''Berlin'', Some ''Berlin'', Some ''Germany'')"
  by (simp add: attempt_def net_first_def bind_err_def parse_ipapi_def ipapi_body_def
      subscript_def py_float_def dict_get_def py_or_def)

lemma second_only_1:
  "attempt net_second_only 4 (''https://ipapi.co/json/'', parse_ipapi)
     = Inl (Raised ConnectionError ''no route to https://ipapi.co/json/'')"
  by (simp add: attempt_def net_second_only_def bind_err_def)

lemma second_only_2:
  "attempt net_second_only 4 (''https://ipinfo.io/json'', parse_ipinfo)
     = Inr (Fin (105 / 2), Fin (53 / 4), Some ''Berlin'', Some ''Berlin'', Some ''DE'')"
  by (simp add: attempt_def net_second_only_def bind_err_def parse_ipinfo_def loc_part_def
      ipinfo_body_def subscript_def str_split_def py_index_def float_of_loc_def dict_get_def)

lemma third_only_1:
  "attempt net_third_only 4 (''https://ipapi.co/json/'', parse_ipapi)
     = Inl (Raised KeyError (sq @ ''latitude'' @ sq))"
  by (simp add: attempt_def net_third_only_def bind_err_def parse_ipapi_def subscript_def)

lemma third_only_2:
  "attempt net_third_only 4 (''https://ipinfo.io/json'', parse_ipinfo)
     = Inl (Raised HTTPError ''429 Client Error'')"
  by (simp add: attempt_def net_third_only_def bind_err_def)

lemma third_only_3:
  "attempt net_third_only 4 (''http://ip-api.com/json'', parse_ip_api) = Inr berlin_geo"
  by (simp add: attempt_def net_third_only_def bind_err_def parse_ip_api_def berlin_body_def
      subscript_def py_float_def dict_get_def py_or_def berlin_geo_def)

lemma down_attempt:
  "attempt net_down 4 (url, parser) = Inl (Raised ConnectionError (''no route to '' @ url))"
  by (simp add: attempt_def net_down_def bind_err_def)

text \<open>
  The first provider answers; the first is unreachable and the second answers with the
  coordinates in one string; providers one and two fail (a missing key, a bad status) and
  the third answers; and all three unreachable.
\<close>

theorem geolocation_fallback_witness:
  "get_ip_location net_first 4
     = Inr (Fin (105 / 2), Fin (53 / 4), Some ''Berlin'', Some ''Berlin'', Some ''Germany'')
   \<and> attempt net_second_only 4 (''https://ipapi.co/json/'', parse_ipapi)
     = Inl (Raised ConnectionError ''no route to https://ipapi.co/json/'')
   \<and> get_ip_location net_second_only 4
     = Inr (Fin (105 / 2), Fin (53 / 4), Some ''Berlin'', Some ''Berlin'', Some ''DE'')
   \<and> attempt net_third_only 4 (''https://ipapi.co/json/'', parse_ipapi)
     = Inl (Raised KeyError (sq @ ''latitude'' @ sq))
   \<and> attempt net_third_only 4 (''https://ipinfo.io/json'', parse_ipinfo)
     = Inl (Raised HTTPError ''429 Client Error'')
   \<and> attempt net_third_only 4 (''http://ip-api.com/json'', parse_ip_api) = Inr berlin_geo
   \<and> get_ip_location net_third_only 4 = Inr berlin_geo
   \<and> attempt net_down 4 (last providers)
     = Inl (Raised ConnectionError ''no route to http://ip-api.com/json'')
   \<and> get_ip_location net_down 4
     = Inl (Raised RuntimeError
              ''IP-Geolokation fehlgeschlagen: no route to http://ip-api.com/json'')"
proof -
  have none: "\<forall>q \<in> set []. isl (attempt net_first 4 q)" by simp
  from geolocation_fallback [of net_first 4] providers_split_1 none first_1
  have one: "get_ip_location net_first 4
     = Inr (Fin (105 / 2), Fin (53 / 4), Some ''Berlin'', Some ''Berlin'', Some ''Germany'')"
    by blast
  have "\<forall>q \<in> set [(''https://ipapi.co/json/'', parse_ipapi)]. isl (attempt net_second_only 4 q)"
    by (simp add: second_only_1)
  with geolocation_fallback [of net_second_only 4] providers_split_2 second_only_2
  have two: "get_ip_location net_second_only 4
     = Inr (Fin (105 / 2), Fin (53 / 4), Some ''Berlin'', Some ''Berlin'', Some ''DE'')"
    by blast
  have first: "\<forall>q \<in> set [(''https://ipapi.co/json/'', parse_ipapi),
      (''https://ipinfo.io/json'', parse_ipinfo)]. isl (attempt net_third_only 4 q)"
    by (simp add: third_only_1 third_only_2)
  from geolocation_fallback [of net_third_only 4] providers_split first third_only_3
  have ok: "get_ip_location net_third_only 4 = Inr berlin_geo" by blast
  have "\<forall>q \<in> set providers. isl (attempt net_down 4 q)"
    by (simp add: providers_def down_attempt)
  with geolocation_fallback [of net_down 4]
  have "get_ip_location net_down 4 =
          Inl (Raised RuntimeError (''IP-Geolokation fehlgeschlagen: ''
                 @ exn_str (projl (attempt net_down 4 (last providers)))))" by blast
  moreover have l: "attempt net_down 4 (last providers)
     = Inl (Raised ConnectionError ''no route to http://ip-api.com/json'')"
    by (simp add: providers_def down_attempt)
  ultimately have down: "get_ip_location net_down 4
     = Inl (Raised RuntimeError
              ''IP-Geolokation fehlgeschlagen: no route to http://ip-api.com/json'')"
    by simp
  from one second_only_1 two third_only_1 third_only_2 third_only_3 ok l down
  show ?thesis by simp
qed

lemma third_only_location: "get_ip_location net_third_only 4 = Inr berlin_geo"
  unfolding get_ip_location_def providers_split
  by (rule try_providers_first) (simp_all add: third_only_1 third_only_2 third_only_3)


text \<open>
  C2, as stated, returns the location of the first provider whose request, status check
  and JSON parse succeed. The first provider answers with status 200 and a well-formed JSON
  document that reports a rate limit: all three steps succeed, the extraction of the
  latitude raises a KeyError, and the result is the location of the third provider.
\<close>

theorem geolocation_counterexample:
  "http_get net_third_only ''https://ipapi.co/json/'' 4
     = Inr \<lparr>rsp_status_error = None,
            rsp_json = Inr [(''error'', JStr ''true''), (''reason'', JStr ''RateLimited'')]\<rparr>
   \<and> parse_ipapi net_third_only [(''error'', JStr ''true''), (''reason'', JStr ''RateLimited'')]
     = Inl (Raised KeyError (sq @ ''latitude'' @ sq))
   \<and> attempt net_third_only 4 (''http://ip-api.com/json'', parse_ip_api) = Inr berlin_geo
   \<and> get_ip_location net_third_only 4 = Inr berlin_geo"
proof (intro conjI)
  show "http_get net_third_only ''https://ipapi.co/json/'' 4
     = Inr \<lparr>rsp_status_error = None,
            rsp_json = Inr [(''error'', JStr ''true''), (''reason'', JStr ''RateLimited'')]\<rparr>"
    by (simp add: net_third_only_def)
  show "parse_ipapi net_third_only [(''error'', JStr ''true''), (''reason'', JStr ''RateLimited'')]
     = Inl (Raised KeyError (sq @ ''latitude'' @ sq))"
    by (simp add: parse_ipapi_def bind_err_def subscript_def)
  show "attempt net_third_only 4 (''http://ip-api.com/json'', parse_ip_api) = Inr berlin_geo"
    by (rule third_only_3)
  show "get_ip_location net_third_only 4 = Inr berlin_geo"
    by (rule third_only_location)
qed

section \<open>The class of a degraded payload\<close>

lemma dec_digits_no_minus: "CHR ''-'' \<notin> set (dec_digits n)"
  using dec_digits_set [of n] by auto

lemma str_nonneg_not_minus_one: "0 \<le> c \<Longrightarrow> str_int c \<noteq> ''-1''"
  using dec_digits_no_minus [of "nat c"] by (auto simp: str_int_def)

lemma dec_digits_nonempty: "dec_digits n \<noteq> []"
  by (subst dec_digits.simps) simp

lemma digit_char_one: "n < 10 \<Longrightarrow> digit_char n = CHR ''1'' \<Longrightarrow> n = 1"
proof -
  assume lt: "n < 10" and d: "digit_char n = CHR ''1''"
  from lt consider "n = 0" | "n = 1" | "n = 2" | "n = 3" | "n = 4" | "n = 5" | "n = 6" | "n = 7"
    | "n = 8" | "n = 9" by atomize_elim arith
  then show ?thesis using d by cases (simp_all add: digit_char_def)
qed

lemma dec_digits_one: "dec_digits n = ''1'' \<longleftrightarrow> n = 1"
proof
  assume a: "dec_digits n = ''1''"
  show "n = 1"
  proof (cases "n < 10")
    case True
    with a have "digit_char n = CHR ''1''" by (simp add: dec_digits.simps [of n])
    with True show ?thesis by (rule digit_char_one)
  next
    case False
    with a have "dec_digits (n div 10) @ [digit_char (n mod 10)] = ''1''"
      by (simp add: dec_digits.simps [of n])
    then have "dec_digits (n div 10) = []" by simp
    with dec_digits_nonempty show ?thesis by blast
  qed
next
  assume "n = 1"
  then show "dec_digits n = ''1''" by (simp add: dec_digits.simps digit_char_def)
qed

lemma str_int_minus_one: "str_int c = ''-1'' \<longleftrightarrow> c = - 1"
proof (cases "c < 0")
  case True
  then have "str_int c = ''-1'' \<longleftrightarrow> nat (- c) = 1"
    by (simp add: str_int_def dec_digits_one)
  with True show ?thesis by auto
next
  case False
  then have "str_int c \<noteq> ''-1''" by (intro str_nonneg_not_minus_one) simp
  with False show ?thesis by auto
qed

lemma WMO_codes_nonneg: "c \<in> fst ` set WMO \<Longrightarrow> 0 \<le> c"
proof -
  assume "c \<in> fst ` set WMO"
  then have "c \<in> set (map fst WMO)" by simp
  then show "0 \<le> c" unfolding WMO_keys by auto
qed

lemma build_fallback:
  "\<exists>out. build_waybar_output response li fallback_weather_data warning (format_hourly_default clk)
        = Inr out \<and> o_class out = ''-1''"
  by (simp add: build_waybar_output_def fallback_weather_data_def format_hourly_default_def
      format_hourly_forecast_def bind_err_def)

lemma main_setup_raises:
  assumes "get_ip_location (run_geo_first env) 4 = Inr (lat, lon, city, region, country)"
    and "client_setup (run_forecast env) = Some e"
  shows "main env = Inl e"
  using assms by (simp add: main_def bind_err_def get_weather_def)

lemma no_cache_first:
  "get_ip_location (run_geo_first no_cache_run) 4
      = Inr (Fin (105 / 2), Fin (53 / 4), Some ''Berlin'', Some ''Berlin'', Some ''Germany'')"
  using third_only_location by (simp add: no_cache_run_def berlin_geo_def)

lemma main_no_cache_run:
  "main no_cache_run = Inl (Raised OSError ''unable to open database file'')"
  by (rule main_setup_raises [OF no_cache_first]) (simp add: no_cache_run_def no_cache_env_def)

text \<open>
  C10, as amended. When the forecast client was built and the forecast request or the
  normalisation raises, the placeholder record has the icon code "-1", the payload is built
  without error, and its class is the string "-1". The only integer with that string form
  is -1, and every code of the weather-code table is non-negative.
\<close>

theorem degraded_class:
  assumes "client_setup env = None" and "fetch_weather env lat lon = Inl e"
  shows "(\<exists>wd li out.
            get_weather env lat lon place_name region country = Inr (wd, li, None)
          \<and> map w_icon_code (c_weather (wd_current wd)) = [''-1'']
          \<and> build_waybar_output (None :: response option) li wd warning
                (format_hourly_default clk) = Inr out
          \<and> o_class out = ''-1'')
       \<and> (\<forall>c. str_int c = ''-1'' \<longleftrightarrow> c = - 1)
       \<and> (\<forall>c \<in> fst ` set WMO. 0 \<le> c)"
proof (intro conjI)
  let ?li = "\<lparr>li_city = (case place_name of
                     Some s \<Rightarrow> if s \<noteq> [] then s else fmt_fixed 2 lat @ '','' @ fmt_fixed 2 lon
                   | None \<Rightarrow> fmt_fixed 2 lat @ '','' @ fmt_fixed 2 lon),
              li_region = region, li_country = country\<rparr>"
  have gw: "get_weather env lat lon place_name region country
      = Inr (fallback_weather_data, ?li, None)"
    using assms by (simp add: get_weather_ok)
  obtain out where bo: "build_waybar_output (None :: response option) ?li fallback_weather_data
      warning (format_hourly_default clk) = Inr out" and oc: "o_class out = ''-1''"
    using build_fallback [of "None :: response option" ?li warning clk] by blast
  show "\<exists>wd li out.
            get_weather env lat lon place_name region country = Inr (wd, li, None)
          \<and> map w_icon_code (c_weather (wd_current wd)) = [''-1'']
          \<and> build_waybar_output (None :: response option) li wd warning
                (format_hourly_default clk) = Inr out
          \<and> o_class out = ''-1''"
  proof (intro exI conjI)
    show "get_weather env lat lon place_name region country
        = Inr (fallback_weather_data, ?li, None)" by (rule gw)
    show "map w_icon_code (c_weather (wd_current fallback_weather_data)) = [''-1'']"
      by (simp add: fallback_weather_data_def)
    show "build_waybar_output (None :: response option) ?li fallback_weather_data
      warning (format_hourly_default clk) = Inr out" by (rule bo)
    show "o_class out = ''-1''" by (rule oc)
  qed
next
  show "\<forall>c. str_int c = ''-1'' \<longleftrightarrow> c = - 1"
    using str_int_minus_one by blast
next
  show "\<forall>c \<in> fst ` set WMO. 0 \<le> c"
    using WMO_codes_nonneg by blast
qed

text \<open>The payload after a refused connection, and the string forms of -1, 0 and 99.\<close>

theorem degraded_class_witness:
  "client_setup offline_env = None
   \<and> fetch_weather offline_env (Fin (105 / 2)) (Fin (53 / 4))
       = Inl (Raised ConnectionError ''connection refused'')
   \<and> get_weather offline_env (Fin (105 / 2)) (Fin (53 / 4)) (Some ''Berlin'') (Some ''Berlin'')
         (Some ''Germany'')
       = Inr (fallback_weather_data, berlin, None)
   \<and> map_sum id o_class (build_waybar_output (None :: response option) berlin
         fallback_weather_data [] (format_hourly_default (clock_at 48300000000)))
       = Inr ''-1''
   \<and> str_int (- 1) = ''-1'' \<and> str_int 0 \<noteq> ''-1'' \<and> str_int 99 \<noteq> ''-1''
   \<and> (0 :: int) \<in> fst ` set WMO \<and> (99 :: int) \<in> fst ` set WMO"
proof -
  have s: "client_setup offline_env = None" by (simp add: offline_env_def)
  have f: "fetch_weather offline_env (Fin (105 / 2)) (Fin (53 / 4))
       = Inl (Raised ConnectionError ''connection refused'')" by (rule offline_fetch)
  have g: "get_weather offline_env (Fin (105 / 2)) (Fin (53 / 4)) (Some ''Berlin'')
      (Some ''Berlin'') (Some ''Germany'') = Inr (fallback_weather_data, berlin, None)"
    using s by (simp add: get_weather_ok offline_fetch berlin_def)
  from degraded_class [OF s f, of "Some ''Berlin''" "Some ''Berlin''" "Some ''Germany''" "[]"
      "clock_at 48300000000"]
  have "(\<exists>out. build_waybar_output (None :: response option) berlin fallback_weather_data []
            (format_hourly_default (clock_at 48300000000)) = Inr out \<and> o_class out = ''-1'')
        \<and> (\<forall>c. str_int c = ''-1'' \<longleftrightarrow> c = - 1)"
    unfolding g by simp
  moreover have "(0::int) \<in> fst ` set WMO" "(99::int) \<in> fst ` set WMO"
    by (simp_all add: WMO_def)
  ultimately show ?thesis using s f g by auto
qed

text \<open>
  C10, as stated, gives the class "-1" whenever weather fetching fails. When the cache file
  cannot be opened, building the session raises ahead of the guarded block:
  \<^verbatim>\<open>get_weather\<close> raises, and the run, whose location was resolved, ends with that error
  before a payload is built or anything is printed.
\<close>

theorem degraded_class_counterexample:
  "client_setup no_cache_env = Some (Raised OSError ''unable to open database file'')
   \<and> get_weather no_cache_env (Fin (105 / 2)) (Fin (53 / 4)) (Some ''Berlin'') (Some ''Berlin'')
         (Some ''Germany'')
       = Inl (Raised OSError ''unable to open database file'')
   \<and> get_ip_location (run_geo_first no_cache_run) 4 = Inr berlin_geo
   \<and> run_forecast no_cache_run = no_cache_env
   \<and> main no_cache_run = Inl (Raised OSError ''unable to open database file'')"
proof (intro conjI)
  show "client_setup no_cache_env = Some (Raised OSError ''unable to open database file'')"
    by (simp add: no_cache_env_def)
  show "get_weather no_cache_env (Fin (105 / 2)) (Fin (53 / 4)) (Some ''Berlin'') (Some ''Berlin'')
         (Some ''Germany'')
       = Inl (Raised OSError ''unable to open database file'')"
    by (simp add: get_weather_def no_cache_env_def)
  show "get_ip_location (run_geo_first no_cache_run) 4 = Inr berlin_geo"
    using third_only_location by (simp add: no_cache_run_def)
  show "run_forecast no_cache_run = no_cache_env" by (simp add: no_cache_run_def)
  show "main no_cache_run = Inl (Raised OSError ''unable to open database file'')"
    by (rule main_no_cache_run)
qed

section \<open>What a run prints\<close>









































end
